theory Spec2Isabelle
  imports Main "HOL-Library.Word" "HOL-Library.List_Lexorder" "HOL-Library.Product_Lexorder"
begin

section \<open>The admin chat component (src/pages/admin/chat.tsx)\<close>

text \<open>
  A shallow embedding of \<^verbatim>\<open>ChatComponent\<close>: its local state, the snapshot callback of
  \<^verbatim>\<open>fetchMessages\<close>, the handler \<^verbatim>\<open>addOrUpdateMessage\<close> and \<^verbatim>\<open>editMessage\<close>.
  The document store, the HTTP endpoint and the React runtime are collaborators of the
  component: what they answer is a parameter of the model, what the component asks of
  them is recorded in a trace.
\<close>

subsection \<open>Strings and JSON values\<close>

text \<open>
  A JavaScript string is a sequence of UTF-16 code units. String literals of the source
  are ASCII and are written \<open>js ''...''\<close>.
\<close>

type_synonym js_string = "16 word list"

definition js :: "string \<Rightarrow> js_string" where
  "js s = map of_char s"

text \<open>
  \<^verbatim>\<open>String.prototype.trim\<close> removes leading and trailing WhiteSpace and LineTerminator
  code points (ECMAScript): TAB, LF, VT, FF, CR, SP, NBSP, U+1680, U+2000 to U+200A,
  U+2028, U+2029, U+202F, U+205F, U+3000 and U+FEFF. All of them are single code units.
\<close>

definition is_white :: "16 word \<Rightarrow> bool" where
  "is_white c =
     (c \<in> set [9, 10, 11, 12, 13, 32, 160, 5760, 8232, 8233, 8239, 8287, 12288, 65279]
      \<or> (8192 \<le> c \<and> c \<le> 8202))"

definition trim :: "js_string \<Rightarrow> js_string" where
  "trim s = rev (dropWhile is_white (rev (dropWhile is_white s)))"

text \<open>
  The values of \<^verbatim>\<open>response.json()\<close> and of property reads on them. Numbers are opaque:
  no property the handler reads depends on their value.
\<close>

datatype jsval =
    JUndefined
  | JNull
  | JBool bool
  | JNum int
  | JStr js_string
  | JArr "jsval list"
  | JObj "(js_string \<times> jsval) list"

datatype error = TypeError | External string

text \<open>
  \<^verbatim>\<open>v.name\<close> for the names the handler reads (\<^verbatim>\<open>choices\<close>, \<^verbatim>\<open>message\<close>, \<^verbatim>\<open>content\<close>), none of
  which is a built-in property of an array, a string, a number or a boolean: reading a
  property of \<^verbatim>\<open>undefined\<close> or \<^verbatim>\<open>null\<close> throws a TypeError, an object answers with its
  own property or \<^verbatim>\<open>undefined\<close>, everything else with \<^verbatim>\<open>undefined\<close>. \<open>JObj\<close> lists the
  properties of a parsed object, each name once.
\<close>

fun dot :: "jsval \<Rightarrow> js_string \<Rightarrow> error + jsval" where
  "dot JUndefined k = Inl TypeError"
| "dot JNull k = Inl TypeError"
| "dot (JObj kvs) k = Inr (case map_of kvs k of None \<Rightarrow> JUndefined | Some v \<Rightarrow> v)"
| "dot v k = Inr JUndefined"

text \<open>\<^verbatim>\<open>v[0]\<close>: the first element of an array, the first code unit of a string, the
  property \<^verbatim>\<open>"0"\<close> of an object.\<close>

fun index0 :: "jsval \<Rightarrow> error + jsval" where
  "index0 JUndefined = Inl TypeError"
| "index0 JNull = Inl TypeError"
| "index0 (JArr xs) = Inr (case xs of [] \<Rightarrow> JUndefined | x # _ \<Rightarrow> x)"
| "index0 (JStr s) = Inr (case s of [] \<Rightarrow> JUndefined | c # _ \<Rightarrow> JStr [c])"
| "index0 (JObj kvs) = Inr (case map_of kvs (js ''0'') of None \<Rightarrow> JUndefined | Some v \<Rightarrow> v)"
| "index0 v = Inr JUndefined"

definition and_then :: "error + 'a \<Rightarrow> ('a \<Rightarrow> error + 'b) \<Rightarrow> error + 'b" where
  "and_then r f = (case r of Inl e \<Rightarrow> Inl e | Inr v \<Rightarrow> f v)"

text \<open>\<^verbatim>\<open>data.choices[0].message.content\<close> (line 90).\<close>

definition choices0_message_content :: "jsval \<Rightarrow> error + jsval" where
  "choices0_message_content data =
     and_then (dot data (js ''choices'')) (\<lambda>choices.
     and_then (index0 choices) (\<lambda>choice.
     and_then (dot choice (js ''message'')) (\<lambda>message.
     dot message (js ''content''))))"

subsection \<open>Data model and component state\<close>

text \<open>
  \<^verbatim>\<open>interface ChatMessage\<close>. \<open>id\<close> is \<open>None\<close> when the property is absent; \<open>createdAt\<close> is
  \<open>None\<close> for \<^verbatim>\<open>null\<close>; \<open>updatedAt\<close> is \<open>None\<close> when absent, \<open>Some None\<close> for \<^verbatim>\<open>null\<close>.
\<close>

record ChatMessage =
  id :: "js_string option"
  role :: js_string
  content :: js_string
  createdAt :: "js_string option"
  updatedAt :: "js_string option option"

record user =
  uid :: js_string

text \<open>The four \<^verbatim>\<open>useState\<close> cells of the component.\<close>

record component_state =
  prompt :: js_string
  messages :: "ChatMessage list"
  loading :: bool
  editId :: "js_string option"

definition initial_state :: component_state where
  "initial_state = \<lparr>prompt = [], messages = [], loading = False, editId = None\<rparr>"

subsection \<open>Calls on the collaborators\<close>

text \<open>
  A field of a written document is a plain value or the sentinel of
  \<^verbatim>\<open>serverTimestamp()\<close>; the store replaces the sentinel by a timestamp at commit.
\<close>

datatype field_value = Val jsval | ServerTimestamp | Timestamp int

type_synonym doc_data = "(string \<times> field_value) list"

datatype store_write =
    UpdateDoc string js_string doc_data
  | AddDoc string doc_data

record request =
  http_method :: string
  headers :: "(string \<times> string) list"
  body :: jsval

text \<open>
  An awaited promise resolves, rejects or never settles. A response is what its
  \<^verbatim>\<open>json()\<close> promise does.
\<close>

datatype 'a outcome = Resolved 'a | Rejected error | Pending

datatype response = Response (json: "jsval outcome")

record world =
  store_result :: "store_write \<Rightarrow> unit outcome"
  fetch_result :: "string \<Rightarrow> request \<Rightarrow> response outcome"

datatype event =
    SetPrompt js_string
  | SetLoading bool
  | SetEditId "js_string option"
  | SetMessages "ChatMessage list"
  | Write store_write
  | Fetch string request
  | ConsoleError string error

text \<open>The effect of the state setters of a trace on the component state.\<close>

fun apply_event :: "event \<Rightarrow> component_state \<Rightarrow> component_state" where
  "apply_event (SetPrompt p) s = s\<lparr>prompt := p\<rparr>"
| "apply_event (SetLoading b) s = s\<lparr>loading := b\<rparr>"
| "apply_event (SetEditId e) s = s\<lparr>editId := e\<rparr>"
| "apply_event (SetMessages ms) s = s\<lparr>messages := ms\<rparr>"
| "apply_event (Write w) s = s"
| "apply_event (Fetch u r) s = s"
| "apply_event (ConsoleError m e) s = s"

definition replay :: "event list \<Rightarrow> component_state \<Rightarrow> component_state" where
  "replay es s = fold apply_event es s"

fun sets_loading :: "event \<Rightarrow> bool" where
  "sets_loading (SetLoading b) = True"
| "sets_loading e = False"

text \<open>\<^verbatim>\<open>addDoc\<close> creates a document, \<^verbatim>\<open>updateDoc\<close> changes an existing one.\<close>

fun creates :: "store_write \<Rightarrow> bool" where
  "creates (AddDoc c d) = True"
| "creates (UpdateDoc c e d) = False"

fun store_writes :: "event list \<Rightarrow> store_write list" where
  "store_writes [] = []"
| "store_writes (Write w # es) = w # store_writes es"
| "store_writes (e # es) = store_writes es"

fun fetches :: "event list \<Rightarrow> (string \<times> request) list" where
  "fetches [] = []"
| "fetches (Fetch u r # es) = (u, r) # fetches es"
| "fetches (e # es) = fetches es"

fun errors_logged :: "event list \<Rightarrow> error list" where
  "errors_logged [] = []"
| "errors_logged (ConsoleError m e # es) = e # errors_logged es"
| "errors_logged (e # es) = errors_logged es"

subsection \<open>Sequencing of awaited calls\<close>

text \<open>
  A piece of the handler yields the events it caused and how it ended: with a value,
  with a thrown error, or suspended at an \<^verbatim>\<open>await\<close> whose promise never settles.
\<close>

datatype 'a flow = Value 'a | Threw error | Stuck

type_synonym 'a proc = "event list \<times> 'a flow"

definition emit :: "event \<Rightarrow> unit proc" where
  "emit e = ([e], Value ())"

definition settle :: "'a outcome \<Rightarrow> 'a proc" where
  "settle out =
     ([], case out of Resolved v \<Rightarrow> Value v | Rejected x \<Rightarrow> Threw x | Pending \<Rightarrow> Stuck)"

definition raise_or :: "error + 'a \<Rightarrow> 'a proc" where
  "raise_or r = ([], case r of Inl x \<Rightarrow> Threw x | Inr v \<Rightarrow> Value v)"

definition bind :: "'a proc \<Rightarrow> ('a \<Rightarrow> 'b proc) \<Rightarrow> 'b proc" where
  "bind m f =
     (case m of
        (es, Value v) \<Rightarrow> (case f v of (es', r) \<Rightarrow> (es @ es', r))
      | (es, Threw x) \<Rightarrow> (es, Threw x)
      | (es, Stuck) \<Rightarrow> (es, Stuck))"

definition await_write :: "world \<Rightarrow> store_write \<Rightarrow> unit proc" where
  "await_write w c = bind (emit (Write c)) (\<lambda>_. settle (store_result w c))"

definition await_fetch :: "world \<Rightarrow> string \<Rightarrow> request \<Rightarrow> response proc" where
  "await_fetch w u r = bind (emit (Fetch u r)) (\<lambda>_. settle (fetch_result w u r))"

subsection \<open>addOrUpdateMessage (lines 53 to 107)\<close>

text \<open>\<^verbatim>\<open>if (editId)\<close>: \<^verbatim>\<open>null\<close> and the empty string are falsy.\<close>

definition editing :: "component_state \<Rightarrow> bool" where
  "editing s = (case editId s of None \<Rightarrow> False | Some e \<Rightarrow> e \<noteq> [])"

text \<open>\<^verbatim>\<open>messages.slice(-5)\<close>: the last five entries, all of them when there are fewer.\<close>

definition slice_last5 :: "'a list \<Rightarrow> 'a list" where
  "slice_last5 xs = drop (length xs - 5) xs"

text \<open>
  What \<^verbatim>\<open>JSON.stringify\<close> keeps of a message: every property that is not \<^verbatim>\<open>undefined\<close>,
  in the order the snapshot callback creates them.
\<close>

definition nullable :: "js_string option \<Rightarrow> jsval" where
  "nullable v = (case v of None \<Rightarrow> JNull | Some t \<Rightarrow> JStr t)"

definition message_json :: "ChatMessage \<Rightarrow> jsval" where
  "message_json m = JObj
     ((case id m of None \<Rightarrow> [] | Some i \<Rightarrow> [(js ''id'', JStr i)])
      @ [(js ''role'', JStr (role m)),
         (js ''content'', JStr (content m)),
         (js ''createdAt'', nullable (createdAt m))]
      @ (case updatedAt m of None \<Rightarrow> [] | Some u \<Rightarrow> [(js ''updatedAt'', nullable u)]))"

text \<open>The request of lines 81 to 87; \<open>body\<close> is the argument of \<^verbatim>\<open>JSON.stringify\<close>.\<close>

definition chat_request :: "component_state \<Rightarrow> request" where
  "chat_request s =
     \<lparr>http_method = ''POST'',
      headers = [(''Content-Type'', ''application/json'')],
      body = JObj [(js ''prompt'', JStr (prompt s)),
                   (js ''messages'', JArr (map message_json (slice_last5 (messages s))))]\<rparr>"

definition update_write :: "js_string \<Rightarrow> component_state \<Rightarrow> store_write" where
  "update_write e s =
     UpdateDoc ''messages'' e
       [(''content'', Val (JStr (prompt s))),
        (''updatedAt'', ServerTimestamp)]"

definition user_add :: "user \<Rightarrow> component_state \<Rightarrow> store_write" where
  "user_add u s =
     AddDoc ''messages''
       [(''role'', Val (JStr (js ''user''))),
        (''content'', Val (JStr (prompt s))),
        (''userId'', Val (JStr (uid u))),
        (''createdAt'', ServerTimestamp),
        (''updatedAt'', ServerTimestamp)]"

definition assistant_add :: "user \<Rightarrow> jsval \<Rightarrow> store_write" where
  "assistant_add u c =
     AddDoc ''messages''
       [(''role'', Val (JStr (js ''assistant''))),
        (''content'', Val c),
        (''userId'', Val (JStr (uid u))),
        (''createdAt'', ServerTimestamp),
        (''updatedAt'', ServerTimestamp)]"

text \<open>Lines 61 to 78: the write of the user's message.\<close>

definition write_user_message :: "world \<Rightarrow> user \<Rightarrow> component_state \<Rightarrow> unit proc" where
  "write_user_message w u s =
     (case editId s of
        Some e \<Rightarrow>
          if e \<noteq> [] then
            bind (await_write w (update_write e s)) (\<lambda>_. emit (SetEditId None))
          else await_write w (user_add u s)
      | None \<Rightarrow> await_write w (user_add u s))"

text \<open>Lines 80 to 101: the remote call, the write of the reply, the reset of the draft.\<close>

definition request_reply :: "world \<Rightarrow> user \<Rightarrow> component_state \<Rightarrow> unit proc" where
  "request_reply w u s =
     bind (await_fetch w ''/api/chat'' (chat_request s)) (\<lambda>response.
     bind (settle (json response)) (\<lambda>data.
     bind (raise_or (choices0_message_content data)) (\<lambda>c.
     bind (await_write w (assistant_add u c)) (\<lambda>_.
     emit (SetPrompt [])))))"

text \<open>Lines 61 to 101: the body of the \<^verbatim>\<open>try\<close> block.\<close>

definition try_block :: "world \<Rightarrow> user \<Rightarrow> component_state \<Rightarrow> unit proc" where
  "try_block w u s = bind (write_user_message w u s) (\<lambda>_. request_reply w u s)"

text \<open>
  \<^verbatim>\<open>catch\<close> logs the error, \<^verbatim>\<open>finally\<close> resets the loading flag; neither runs while the
  \<^verbatim>\<open>try\<close> block is suspended.
\<close>

datatype completion = Returned | Suspended

definition catch_finally :: "unit proc \<Rightarrow> event list \<times> completion" where
  "catch_finally p =
     (case p of
        (es, Value _) \<Rightarrow> (es @ [SetLoading False], Returned)
      | (es, Threw x) \<Rightarrow>
          (es @ [ConsoleError ''Error submitting message:'' x, SetLoading False], Returned)
      | (es, Stuck) \<Rightarrow> (es, Suspended))"

definition addOrUpdateMessage ::
  "world \<Rightarrow> user option \<Rightarrow> component_state \<Rightarrow> event list \<times> completion" where
  "addOrUpdateMessage w usr s =
     (if trim (prompt s) = [] then ([], Returned)
      else case usr of
        None \<Rightarrow> ([], Returned)
      | Some u \<Rightarrow>
          (case catch_finally (try_block w u s) of
             (es, c) \<Rightarrow> (SetLoading True # es, c)))"

text \<open>The component state once the setters of an invocation have taken effect.\<close>

definition state_after :: "world \<Rightarrow> user option \<Rightarrow> component_state \<Rightarrow> component_state" where
  "state_after w usr s = replay (fst (addOrUpdateMessage w usr s)) s"

subsection \<open>editMessage (lines 110 to 113)\<close>

text \<open>\<^verbatim>\<open>message.id || null\<close>: an absent or empty id gives \<^verbatim>\<open>null\<close>.\<close>

definition editMessage :: "ChatMessage \<Rightarrow> component_state \<Rightarrow> component_state" where
  "editMessage m s =
     s\<lparr>prompt := content m,
       editId := (case id m of None \<Rightarrow> None | Some i \<Rightarrow> if i = [] then None else Some i)\<rparr>"

subsection \<open>The snapshot callback of fetchMessages (lines 31 to 43)\<close>

text \<open>
  A document of a snapshot: \<^verbatim>\<open>doc.id\<close> and the fields of \<^verbatim>\<open>doc.data()\<close> the callback reads.
  A timestamp field is \<open>None\<close> while the server timestamp is pending. The text of a
  timestamp, \<^verbatim>\<open>toDate().toLocaleString()\<close>, depends on the runtime's locale and is a
  parameter.
\<close>

record snapshot_doc =
  doc_id :: js_string
  data_role :: js_string
  data_content :: js_string
  data_createdAt :: "int option"
  data_updatedAt :: "int option"

definition to_message :: "(int \<Rightarrow> js_string) \<Rightarrow> snapshot_doc \<Rightarrow> ChatMessage" where
  "to_message fmt d =
     \<lparr>id = Some (doc_id d),
      role = data_role d,
      content = data_content d,
      createdAt = map_option fmt (data_createdAt d),
      updatedAt = Some (map_option fmt (data_updatedAt d))\<rparr>"

definition snapshot_callback ::
  "(int \<Rightarrow> js_string) \<Rightarrow> snapshot_doc list \<Rightarrow> component_state \<Rightarrow> component_state" where
  "snapshot_callback fmt docs s = apply_event (SetMessages (map (to_message fmt) docs)) s"




definition example_locale :: "int \<Rightarrow> js_string" where
  "example_locale t = (if t < 0 then js ''-'' else []) @ js ''t+'' @ [of_nat (nat \<bar>t\<bar>)]"

subsection \<open>The subscription effect (lines 22 to 50)\<close>

text \<open>
  The listeners opened by \<^verbatim>\<open>onSnapshot\<close>, in opening order: the uid each one filters on
  and whether it is still open. \<^verbatim>\<open>fetchMessages\<close> is \<^verbatim>\<open>async\<close>: it opens a listener when
  there is a user and its promise carries the function that would close it.
\<close>

type_synonym listener = "js_string \<times> bool"

definition fetchMessages :: "user option \<Rightarrow> listener list \<Rightarrow> listener list \<times> nat option" where
  "fetchMessages usr ls =
     (case usr of
        None \<Rightarrow> (ls, None)
      | Some u \<Rightarrow> (ls @ [(uid u, True)], Some (length ls)))"

text \<open>
  The effect callback \<^verbatim>\<open>() => { fetchMessages(); }\<close> calls \<^verbatim>\<open>fetchMessages\<close>, drops its
  promise and returns \<^verbatim>\<open>undefined\<close>: React is handed no cleanup function.
\<close>

definition effect_callback :: "user option \<Rightarrow> listener list \<Rightarrow> listener list \<times> nat option" where
  "effect_callback usr ls = (case fetchMessages usr ls of (ls', unsubscribe) \<Rightarrow> (ls', None))"

text \<open>
  React's part: an effect with dependency \<^verbatim>\<open>[user]\<close> runs at mount and again when \<^verbatim>\<open>user\<close>
  changes; the cleanup function the previous run returned, if any, runs before the next
  run and at unmount. State updates reach a mounted component only. React compares the
  dependency by identity: \<open>change_user\<close> is the auth context yielding another value, a
  user object, which is a change whatever its uid, or \<^verbatim>\<open>null\<close>, which is a change unless
  the value was \<^verbatim>\<open>null\<close> already.
\<close>

record view =
  comp :: component_state
  mounted :: bool
  current_user :: "user option"
  listeners :: "listener list"
  cleanup :: "nat option"

definition run_cleanup :: "nat option \<Rightarrow> listener list \<Rightarrow> listener list" where
  "run_cleanup c ls =
     (case c of
        None \<Rightarrow> ls
      | Some i \<Rightarrow> if i < length ls then ls[i := (fst (ls ! i), False)] else ls)"

definition mount :: "user option \<Rightarrow> view" where
  "mount usr =
     (case effect_callback usr [] of
        (ls, c) \<Rightarrow>
          \<lparr>comp = initial_state, mounted = True, current_user = usr,
           listeners = ls, cleanup = c\<rparr>)"

definition change_user :: "user option \<Rightarrow> view \<Rightarrow> view" where
  "change_user usr v =
     (if mounted v \<and> \<not> (usr = None \<and> current_user v = None) then
        (case effect_callback usr (run_cleanup (cleanup v) (listeners v)) of
           (ls, c) \<Rightarrow> v\<lparr>current_user := usr, listeners := ls, cleanup := c\<rparr>)
      else v)"

definition unmount :: "view \<Rightarrow> view" where
  "unmount v =
     v\<lparr>mounted := False,
       listeners := run_cleanup (cleanup v) (listeners v),
       cleanup := None\<rparr>"

text \<open>The store delivers a snapshot to listener \<open>i\<close>: an open listener runs the callback.\<close>

definition callback_runs :: "nat \<Rightarrow> view \<Rightarrow> bool" where
  "callback_runs i v = (i < length (listeners v) \<and> snd (listeners v ! i))"

definition deliver :: "(int \<Rightarrow> js_string) \<Rightarrow> nat \<Rightarrow> snapshot_doc list \<Rightarrow> view \<Rightarrow> view" where
  "deliver fmt i docs v =
     (if callback_runs i v \<and> mounted v
      then v\<lparr>comp := snapshot_callback fmt docs (comp v)\<rparr>
      else v)"

subsection \<open>The message store\<close>

text \<open>
  The \<^verbatim>\<open>messages\<close> collection as the store keeps it. The store is a collaborator; its
  documented behaviour is: \<^verbatim>\<open>addDoc\<close> creates a document under a fresh id, \<^verbatim>\<open>updateDoc\<close>
  overwrites the fields it is given and leaves the others, and a \<^verbatim>\<open>serverTimestamp()\<close>
  sentinel becomes the commit time.
\<close>

record stored_doc =
  stored_id :: js_string
  stored_data :: doc_data

fun resolve :: "int \<Rightarrow> field_value \<Rightarrow> field_value" where
  "resolve t ServerTimestamp = Timestamp t"
| "resolve t v = v"

fun set_field :: "string \<Rightarrow> field_value \<Rightarrow> doc_data \<Rightarrow> doc_data" where
  "set_field k v [] = [(k, v)]"
| "set_field k v ((k', v') # d) =
     (if k = k' then (k, v) # d else (k', v') # set_field k v d)"

fun set_fields :: "int \<Rightarrow> doc_data \<Rightarrow> doc_data \<Rightarrow> doc_data" where
  "set_fields t [] d = d"
| "set_fields t ((k, v) # new) d = set_fields t new (set_field k (resolve t v) d)"

definition update_fields :: "int \<Rightarrow> doc_data \<Rightarrow> stored_doc \<Rightarrow> stored_doc" where
  "update_fields t new d = d\<lparr>stored_data := set_fields t new (stored_data d)\<rparr>"

text \<open>A write commits at server time \<open>t\<close>; \<open>n\<close> is the id the store picks for a new document.\<close>

fun commit :: "int \<Rightarrow> js_string \<Rightarrow> store_write \<Rightarrow> stored_doc list \<Rightarrow> stored_doc list" where
  "commit t n (AddDoc c new) st =
     (if c = ''messages''
      then st @ [\<lparr>stored_id = n, stored_data = set_fields t new []\<rparr>]
      else st)"
| "commit t n (UpdateDoc c e new) st =
     (if c = ''messages''
      then map (\<lambda>d. if stored_id d = e then update_fields t new d else d) st
      else st)"

text \<open>
  The store after the writes of a trace: a write whose promise resolved has committed,
  each with its commit time and fresh id.
\<close>

fun commit_writes ::
  "world \<Rightarrow> (int \<times> js_string) list \<Rightarrow> store_write list \<Rightarrow> stored_doc list \<Rightarrow> stored_doc list" where
  "commit_writes w ((t, n) # stamps) (x # xs) st =
     commit_writes w stamps xs
       (if store_result w x = Resolved () then commit t n x st else st)"
| "commit_writes w stamps xs st = st"

definition field :: "stored_doc \<Rightarrow> string \<Rightarrow> field_value option" where
  "field d k = map_of (stored_data d) k"

text \<open>
  The query of lines 25 to 29: the documents of one user, by ascending creation time;
  the store orders documents of equal creation time by their ids. A document without a
  \<^verbatim>\<open>createdAt\<close> timestamp is not in the result, so the default of the sorting key is
  never used.
\<close>

definition created_time :: "stored_doc \<Rightarrow> int option" where
  "created_time d = (case field d ''createdAt'' of Some (Timestamp t) \<Rightarrow> Some t | _ \<Rightarrow> None)"

definition in_query :: "js_string \<Rightarrow> stored_doc \<Rightarrow> bool" where
  "in_query u d = (field d ''userId'' = Some (Val (JStr u)) \<and> created_time d \<noteq> None)"

definition created_key :: "stored_doc \<Rightarrow> int" where
  "created_key d = (case created_time d of Some t \<Rightarrow> t | None \<Rightarrow> 0)"

definition query_key :: "stored_doc \<Rightarrow> int \<times> js_string" where
  "query_key d = (created_key d, stored_id d)"

definition history :: "js_string \<Rightarrow> stored_doc list \<Rightarrow> stored_doc list" where
  "history u st = sort_key query_key (filter (in_query u) st)"


text \<open>
  What a committed update of the edited message makes of a stored document, and the
  document a committed write of the reply creates.
\<close>

definition edited :: "js_string \<Rightarrow> js_string \<Rightarrow> int \<Rightarrow> stored_doc \<Rightarrow> stored_doc" where
  "edited e p t d =
     (if stored_id d = e
      then update_fields t [(''content'', Val (JStr p)), (''updatedAt'', ServerTimestamp)] d
      else d)"

definition reply_doc :: "js_string \<Rightarrow> user \<Rightarrow> jsval \<Rightarrow> int \<Rightarrow> stored_doc" where
  "reply_doc n u c t =
     \<lparr>stored_id = n,
      stored_data = [(''role'', Val (JStr (js ''assistant''))),
                     (''content'', Val c),
                     (''userId'', Val (JStr (uid u))),
                     (''createdAt'', Timestamp t),
                     (''updatedAt'', Timestamp t)]\<rparr>"

subsection \<open>When the remote call succeeds\<close>

text \<open>
  The reply of the endpoint to the handler's request: the call resolves, the body parses
  and \<^verbatim>\<open>choices[0].message.content\<close> can be read.
\<close>

definition remote_reply :: "world \<Rightarrow> component_state \<Rightarrow> jsval option" where
  "remote_reply w s =
     (case fetch_result w ''/api/chat'' (chat_request s) of
        Resolved r \<Rightarrow>
          (case json r of
             Resolved d \<Rightarrow>
               (case choices0_message_content d of Inr c \<Rightarrow> Some c | Inl _ \<Rightarrow> None)
           | _ \<Rightarrow> None)
      | _ \<Rightarrow> None)"

text \<open>The write of the user's message: an update when editing, a new document otherwise.\<close>

definition user_message_write :: "user \<Rightarrow> component_state \<Rightarrow> store_write" where
  "user_message_write u s =
     (case editId s of
        None \<Rightarrow> user_add u s
      | Some e \<Rightarrow> if e \<noteq> [] then update_write e s else user_add u s)"

text \<open>The handler is editing and the store accepts the update of the edited message.\<close>

definition update_committed :: "world \<Rightarrow> component_state \<Rightarrow> bool" where
  "update_committed w s =
     (case editId s of
        None \<Rightarrow> False
      | Some e \<Rightarrow> e \<noteq> [] \<and> store_result w (update_write e s) = Resolved ())"

subsection \<open>Example inputs\<close>

definition u1 :: user where
  "u1 = \<lparr>uid = js ''u1''\<rparr>"

definition u2 :: user where
  "u2 = \<lparr>uid = js ''u2''\<rparr>"

definition reply_hi :: jsval where
  "reply_hi =
     JObj [(js ''choices'',
            JArr [JObj [(js ''message'', JObj [(js ''content'', JStr (js ''Hi there''))])]])]"

text \<open>A world where every call succeeds, and one where the endpoint cannot be reached.\<close>

definition world_ok :: world where
  "world_ok =
     \<lparr>store_result = (\<lambda>c. Resolved ()),
      fetch_result = (\<lambda>u r. Resolved (Response (Resolved reply_hi)))\<rparr>"

definition world_offline :: world where
  "world_offline =
     \<lparr>store_result = (\<lambda>c. Resolved ()),
      fetch_result = (\<lambda>u r. Rejected (External ''network''))\<rparr>"

definition hello_state :: component_state where
  "hello_state = \<lparr>prompt = js ''Hello'', messages = [], loading = False, editId = None\<rparr>"

definition edit_state :: component_state where
  "edit_state =
     \<lparr>prompt = js ''Hello again'',
      messages = [\<lparr>id = Some (js ''m1''), role = js ''user'', content = js ''Hello'',
                   createdAt = Some (js ''t+1''), updatedAt = Some (Some (js ''t+1''))\<rparr>],
      loading = False,
      editId = Some (js ''m1'')\<rparr>"

definition padded_state :: component_state where
  "padded_state = \<lparr>prompt = js '' hi '', messages = [], loading = False, editId = None\<rparr>"

definition blank_state :: component_state where
  "blank_state = \<lparr>prompt = [32, 12288, 10], messages = [], loading = False, editId = None\<rparr>"

definition store_m1 :: "stored_doc list" where
  "store_m1 =
     [\<lparr>stored_id = js ''m1'',
       stored_data = [(''role'', Val (JStr (js ''user''))),
                      (''content'', Val (JStr (js ''Hello''))),
                      (''userId'', Val (JStr (js ''u1''))),
                      (''createdAt'', Timestamp 1),
                      (''updatedAt'', Timestamp 1)]\<rparr>]"

text \<open>A store with a question and its answer.\<close>

definition store_two :: "stored_doc list" where
  "store_two =
     [\<lparr>stored_id = js ''m1'',
       stored_data = [(''role'', Val (JStr (js ''user''))),
                      (''content'', Val (JStr (js ''Hello''))),
                      (''userId'', Val (JStr (js ''u1''))),
                      (''createdAt'', Timestamp 1),
                      (''updatedAt'', Timestamp 1)]\<rparr>,
      \<lparr>stored_id = js ''a1'',
       stored_data = [(''role'', Val (JStr (js ''assistant''))),
                      (''content'', Val (JStr (js ''Hi there''))),
                      (''userId'', Val (JStr (js ''u1''))),
                      (''createdAt'', Timestamp 2),
                      (''updatedAt'', Timestamp 2)]\<rparr>]"

text \<open>The snapshot of that store for its user, and one with the later document first.\<close>

definition snapshot_two :: "snapshot_doc list" where
  "snapshot_two =
     [\<lparr>doc_id = js ''m1'', data_role = js ''user'', data_content = js ''Hello'',
       data_createdAt = Some 1, data_updatedAt = Some 1\<rparr>,
      \<lparr>doc_id = js ''a1'', data_role = js ''assistant'', data_content = js ''Hi there'',
       data_createdAt = Some 2, data_updatedAt = Some 2\<rparr>]"

definition late_first :: "snapshot_doc list" where
  "late_first =
     [\<lparr>doc_id = js ''b'', data_role = js ''assistant'', data_content = js ''Hi there'',
       data_createdAt = Some 2, data_updatedAt = Some 2\<rparr>,
      \<lparr>doc_id = js ''a'', data_role = js ''user'', data_content = js ''Hello'',
       data_createdAt = Some 1, data_updatedAt = Some 1\<rparr>]"

text \<open>A short message, a state with six of them, and a message that was never stored.\<close>

definition brief :: "16 word \<Rightarrow> ChatMessage" where
  "brief c = \<lparr>id = Some [c], role = js ''user'', content = [c], createdAt = None,
             updatedAt = Some None\<rparr>"

definition long_state :: component_state where
  "long_state =
     \<lparr>prompt = js ''Hello'', messages = map brief [49, 50, 51, 52, 53, 54],
      loading = False, editId = None\<rparr>"

definition unsaved_message :: ChatMessage where
  "unsaved_message =
     \<lparr>id = None, role = js ''user'', content = js ''Hello'', createdAt = None,
      updatedAt = None\<rparr>"

section \<open>Properties\<close>

subsection \<open>Traces\<close>

lemmas proc_defs = bind_def emit_def settle_def raise_or_def await_write_def await_fetch_def

lemma replay_Nil: "replay [] s = s"
  by (simp add: replay_def)

lemma replay_Cons: "replay (e # es) s = replay es (apply_event e s)"
  by (simp add: replay_def)

lemma replay_append: "replay (es @ fs) s = replay fs (replay es s)"
  by (simp add: replay_def)

lemma store_writes_append: "store_writes (es @ fs) = store_writes es @ store_writes fs"
  by (induction es rule: store_writes.induct) simp_all

lemma fetches_append: "fetches (es @ fs) = fetches es @ fetches fs"
  by (induction es rule: fetches.induct) simp_all

lemma errors_logged_append: "errors_logged (es @ fs) = errors_logged es @ errors_logged fs"
  by (induction es rule: errors_logged.induct) simp_all

lemma loading_replay:
  "\<forall>e\<in>set es. \<not> sets_loading e \<Longrightarrow> loading (replay es s) = loading s"
proof (induction es arbitrary: s)
  case Nil
  show ?case by (simp add: replay_Nil)
next
  case (Cons e es)
  then have "loading (apply_event e s) = loading s" by (cases e) simp_all
  with Cons show ?case by (simp add: replay_Cons)
qed

subsection \<open>The two halves of the try block\<close>

lemma write_user_message_eq:
  "write_user_message w u s =
     (Write (user_message_write u s) # (if update_committed w s then [SetEditId None] else []),
      case store_result w (user_message_write u s) of
        Resolved v \<Rightarrow> Value () | Rejected x \<Rightarrow> Threw x | Pending \<Rightarrow> Stuck)"
  by (simp add: write_user_message_def user_message_write_def update_committed_def proc_defs
      split: option.split outcome.split)

lemma update_committed_resolved:
  "update_committed w s \<Longrightarrow> store_result w (user_message_write u s) = Resolved ()"
  by (auto simp: update_committed_def user_message_write_def split: option.splits)

lemma request_reply_eq:
  "request_reply w u s =
     (case fetch_result w ''/api/chat'' (chat_request s) of
        Rejected x \<Rightarrow> ([Fetch ''/api/chat'' (chat_request s)], Threw x)
      | Pending \<Rightarrow> ([Fetch ''/api/chat'' (chat_request s)], Stuck)
      | Resolved r \<Rightarrow>
     (case json r of
        Rejected x \<Rightarrow> ([Fetch ''/api/chat'' (chat_request s)], Threw x)
      | Pending \<Rightarrow> ([Fetch ''/api/chat'' (chat_request s)], Stuck)
      | Resolved d \<Rightarrow>
     (case choices0_message_content d of
        Inl x \<Rightarrow> ([Fetch ''/api/chat'' (chat_request s)], Threw x)
      | Inr c \<Rightarrow>
     (case store_result w (assistant_add u c) of
        Rejected x \<Rightarrow>
          ([Fetch ''/api/chat'' (chat_request s), Write (assistant_add u c)], Threw x)
      | Pending \<Rightarrow>
          ([Fetch ''/api/chat'' (chat_request s), Write (assistant_add u c)], Stuck)
      | Resolved v \<Rightarrow>
          ([Fetch ''/api/chat'' (chat_request s), Write (assistant_add u c), SetPrompt []],
           Value ())))))"
  by (simp add: request_reply_def proc_defs split: outcome.split sum.split)

lemma request_reply_writes:
  "store_writes (fst (request_reply w u s)) =
     (case remote_reply w s of None \<Rightarrow> [] | Some c \<Rightarrow> [assistant_add u c])"
  by (simp add: request_reply_eq remote_reply_def split: outcome.split sum.split)

lemma request_reply_fetches:
  "fetches (fst (request_reply w u s)) = [(''/api/chat'', chat_request s)]"
  by (simp add: request_reply_eq split: outcome.split sum.split)

lemma request_reply_errors: "errors_logged (fst (request_reply w u s)) = []"
  by (simp add: request_reply_eq split: outcome.split sum.split)

lemma request_reply_no_loading: "\<forall>e\<in>set (fst (request_reply w u s)). \<not> sets_loading e"
  by (simp add: request_reply_eq split: outcome.split sum.split)

lemma request_reply_state:
  "replay (fst (request_reply w u s)) t =
     (if snd (request_reply w u s) = Value () then t\<lparr>prompt := []\<rparr> else t)"
  by (simp add: request_reply_eq replay_def split: outcome.split sum.split)

lemma try_block_eq:
  "try_block w u s =
     (case store_result w (user_message_write u s) of
        Resolved v \<Rightarrow>
          (Write (user_message_write u s)
             # (if update_committed w s then [SetEditId None] else [])
             @ fst (request_reply w u s),
           snd (request_reply w u s))
      | Rejected x \<Rightarrow> ([Write (user_message_write u s)], Threw x)
      | Pending \<Rightarrow> ([Write (user_message_write u s)], Stuck))"
  using update_committed_resolved [of w s u]
  by (auto simp add: try_block_def write_user_message_eq bind_def
      split: outcome.split prod.split)

lemma try_block_writes:
  "store_writes (fst (try_block w u s)) =
     user_message_write u s
       # (if store_result w (user_message_write u s) = Resolved ()
          then (case remote_reply w s of None \<Rightarrow> [] | Some c \<Rightarrow> [assistant_add u c])
          else [])"
  by (simp add: try_block_eq store_writes_append request_reply_writes split: outcome.split)

lemma try_block_fetches:
  "fetches (fst (try_block w u s)) =
     (if store_result w (user_message_write u s) = Resolved ()
      then [(''/api/chat'', chat_request s)] else [])"
  by (simp add: try_block_eq fetches_append request_reply_fetches split: outcome.split)

lemma try_block_errors: "errors_logged (fst (try_block w u s)) = []"
  by (simp add: try_block_eq errors_logged_append request_reply_errors split: outcome.split)

lemma try_block_no_loading: "\<forall>e\<in>set (fst (try_block w u s)). \<not> sets_loading e"
  using request_reply_no_loading [of w u s]
  by (simp add: try_block_eq split: outcome.split)

lemma try_block_state:
  "replay (fst (try_block w u s)) t =
     (if snd (try_block w u s) = Value () then t\<lparr>prompt := [], editId := (if update_committed w s then None else editId t)\<rparr>
      else t\<lparr>editId := (if update_committed w s then None else editId t)\<rparr>)"
  using update_committed_resolved [of w s u]
  by (auto simp add: try_block_eq replay_Cons replay_append replay_Nil request_reply_state
      split: outcome.split)

lemma handler_eq:
  "trim (prompt s) \<noteq> [] \<Longrightarrow>
   addOrUpdateMessage w (Some u) s =
     (case snd (try_block w u s) of
        Value v \<Rightarrow> (SetLoading True # fst (try_block w u s) @ [SetLoading False], Returned)
      | Threw x \<Rightarrow>
          (SetLoading True # fst (try_block w u s)
             @ [ConsoleError ''Error submitting message:'' x, SetLoading False], Returned)
      | Stuck \<Rightarrow> (SetLoading True # fst (try_block w u s), Suspended))"
  by (simp add: addOrUpdateMessage_def catch_finally_def split: prod.split flow.split)

lemma handler_writes:
  "trim (prompt s) \<noteq> [] \<Longrightarrow>
   store_writes (fst (addOrUpdateMessage w (Some u) s)) = store_writes (fst (try_block w u s))"
  by (simp add: handler_eq store_writes_append split: flow.split)

lemma handler_fetches:
  "trim (prompt s) \<noteq> [] \<Longrightarrow>
   fetches (fst (addOrUpdateMessage w (Some u) s)) = fetches (fst (try_block w u s))"
  by (simp add: handler_eq fetches_append split: flow.split)

subsection \<open>Facts about the example inputs\<close>

lemma remote_reply_ok [simp]: "remote_reply world_ok s = Some (JStr (js ''Hi there''))"
  by (simp add: remote_reply_def world_ok_def reply_hi_def choices0_message_content_def
      and_then_def js_def)

lemma remote_reply_offline [simp]: "remote_reply world_offline s = None"
  by (simp add: remote_reply_def world_offline_def)

lemma trim_examples [simp]:
  "trim (js ''Hello'') = js ''Hello''" "trim (js ''Hello again'') = js ''Hello again''"
  "trim (js '' hi '') = js ''hi''" "trim [32, 12288, 10] = []"
  by (simp_all add: trim_def is_white_def js_def)

lemma js_Nil [simp]: "js s = [] \<longleftrightarrow> s = []"
  by (simp add: js_def)

subsection \<open>Store writes of a submission\<close>

lemma content_of_first_choice:
  assumes "map_of kvs (js ''choices'') = Some (JArr (JObj ckvs # others))"
    and "map_of ckvs (js ''message'') = Some (JObj mkvs)"
    and "map_of mkvs (js ''content'') = Some v"
  shows "choices0_message_content (JObj kvs) = Inr v"
  using assms by (simp add: choices0_message_content_def and_then_def)

lemma content_without_choices:
  "map_of kvs (js ''choices'') = None \<Longrightarrow> choices0_message_content (JObj kvs) = Inl TypeError"
  by (simp add: choices0_message_content_def and_then_def)

lemma content_of_no_choice:
  "map_of kvs (js ''choices'') = Some (JArr []) \<Longrightarrow>
   choices0_message_content (JObj kvs) = Inl TypeError"
  by (simp add: choices0_message_content_def and_then_def)

text \<open>
  C1. A submission with a draft that is not blank and a user present makes one write for
  the user's message: a new document with role \<open>user\<close>, the draft, the user's uid and
  server timestamps for \<open>createdAt\<close> and \<open>updatedAt\<close>, or, when editing, an update of the
  document named by the edit marker. When that write resolves and the remote call
  succeeds, one more write follows: a new document with role \<open>assistant\<close>, the same uid,
  both timestamps set by the server, and as content the \<open>content\<close> of the \<open>message\<close> of the
  first element of \<open>choices\<close> in the JSON of the response. There is no other write: none
  follows the first when it does not resolve, when the call is rejected, when the body
  does not parse, or when the JSON has no \<open>choices\<close> or an empty one.
\<close>

theorem submit_store_writes:
  assumes "trim (prompt s) \<noteq> []"
  shows "let created = AddDoc ''messages''
               [(''role'', Val (JStr (js ''user''))),
                (''content'', Val (JStr (prompt s))),
                (''userId'', Val (JStr (uid u))),
                (''createdAt'', ServerTimestamp),
                (''updatedAt'', ServerTimestamp)];
             first = (case editId s of
                        None \<Rightarrow> created
                      | Some e \<Rightarrow>
                          if e = [] then created
                          else UpdateDoc ''messages'' e
                                 [(''content'', Val (JStr (prompt s))),
                                  (''updatedAt'', ServerTimestamp)]);
             reply = (\<lambda>c. AddDoc ''messages''
                         [(''role'', Val (JStr (js ''assistant''))),
                          (''content'', Val c),
                          (''userId'', Val (JStr (uid u))),
                          (''createdAt'', ServerTimestamp),
                          (''updatedAt'', ServerTimestamp)]);
             writes = store_writes (fst (addOrUpdateMessage w (Some u) s));
             answer = fetch_result w ''/api/chat'' (chat_request s)
         in writes =
              first #
              (if store_result w first = Resolved () then
                 (case remote_reply w s of None \<Rightarrow> [] | Some c \<Rightarrow> [reply c])
               else [])
          \<and> (\<forall>r kvs ckvs others mkvs v.
                 store_result w first = Resolved ()
               \<and> answer = Resolved r \<and> json r = Resolved (JObj kvs)
               \<and> map_of kvs (js ''choices'') = Some (JArr (JObj ckvs # others))
               \<and> map_of ckvs (js ''message'') = Some (JObj mkvs)
               \<and> map_of mkvs (js ''content'') = Some v
               \<longrightarrow> writes = [first, reply v])
          \<and> (\<forall>r kvs.
                 answer = Resolved r \<and> json r = Resolved (JObj kvs)
               \<and> (map_of kvs (js ''choices'') = None \<or> map_of kvs (js ''choices'') = Some (JArr []))
               \<longrightarrow> writes = [first])
          \<and> (\<forall>x. answer = Rejected x \<longrightarrow> writes = [first])
          \<and> (\<forall>r x. answer = Resolved r \<and> json r = Rejected x \<longrightarrow> writes = [first])
          \<and> (store_result w first \<noteq> Resolved () \<longrightarrow> writes = [first])"
proof -
  have first: "user_message_write u s =
        (case editId s of
           None \<Rightarrow> user_add u s
         | Some e \<Rightarrow> if e = [] then user_add u s else update_write e s)"
    by (simp add: user_message_write_def split: option.split)
  let ?first = "user_message_write u s"
  let ?writes = "store_writes (fst (addOrUpdateMessage w (Some u) s))"
  let ?answer = "fetch_result w ''/api/chat'' (chat_request s)"
  have all: "?writes = ?first #
      (if store_result w ?first = Resolved () then
         (case remote_reply w s of None \<Rightarrow> [] | Some c \<Rightarrow> [assistant_add u c])
       else [])"
    by (simp add: handler_writes [OF assms] try_block_writes)
  have read: "\<forall>r kvs ckvs others mkvs v.
                 store_result w ?first = Resolved ()
               \<and> ?answer = Resolved r \<and> json r = Resolved (JObj kvs)
               \<and> map_of kvs (js ''choices'') = Some (JArr (JObj ckvs # others))
               \<and> map_of ckvs (js ''message'') = Some (JObj mkvs)
               \<and> map_of mkvs (js ''content'') = Some v
               \<longrightarrow> ?writes = [?first, assistant_add u v]"
    by (auto simp: all remote_reply_def content_of_first_choice)
  have malformed: "\<forall>r kvs.
                 ?answer = Resolved r \<and> json r = Resolved (JObj kvs)
               \<and> (map_of kvs (js ''choices'') = None \<or> map_of kvs (js ''choices'') = Some (JArr []))
               \<longrightarrow> ?writes = [?first]"
    by (auto simp: all remote_reply_def content_without_choices content_of_no_choice)
  have rejected: "\<forall>x. ?answer = Rejected x \<longrightarrow> ?writes = [?first]"
    by (auto simp: all remote_reply_def)
  have unparsed: "\<forall>r x. ?answer = Resolved r \<and> json r = Rejected x \<longrightarrow> ?writes = [?first]"
    by (auto simp: all remote_reply_def)
  have unwritten: "store_result w ?first \<noteq> Resolved () \<longrightarrow> ?writes = [?first]"
    by (simp add: all)
  from all read malformed rejected unparsed unwritten
  have "?writes = ?first #
      (if store_result w ?first = Resolved () then
         (case remote_reply w s of None \<Rightarrow> [] | Some c \<Rightarrow> [assistant_add u c])
       else [])
    \<and> (\<forall>r kvs ckvs others mkvs v.
                 store_result w ?first = Resolved ()
               \<and> ?answer = Resolved r \<and> json r = Resolved (JObj kvs)
               \<and> map_of kvs (js ''choices'') = Some (JArr (JObj ckvs # others))
               \<and> map_of ckvs (js ''message'') = Some (JObj mkvs)
               \<and> map_of mkvs (js ''content'') = Some v
               \<longrightarrow> ?writes = [?first, assistant_add u v])
    \<and> (\<forall>r kvs.
                 ?answer = Resolved r \<and> json r = Resolved (JObj kvs)
               \<and> (map_of kvs (js ''choices'') = None \<or> map_of kvs (js ''choices'') = Some (JArr []))
               \<longrightarrow> ?writes = [?first])
    \<and> (\<forall>x. ?answer = Rejected x \<longrightarrow> ?writes = [?first])
    \<and> (\<forall>r x. ?answer = Resolved r \<and> json r = Rejected x \<longrightarrow> ?writes = [?first])
    \<and> (store_result w ?first \<noteq> Resolved () \<longrightarrow> ?writes = [?first])"
    by (intro conjI)
  then show ?thesis
    unfolding Let_def first user_add_def update_write_def assistant_add_def .
qed

theorem submit_store_writes_witness:
  "trim (prompt hello_state) \<noteq> []
   \<and> fetch_result world_ok ''/api/chat'' (chat_request hello_state)
       = Resolved (Response (Resolved
           (JObj [(js ''choices'',
                   JArr [JObj [(js ''message'',
                                JObj [(js ''content'', JStr (js ''Hi there''))])]])])))
   \<and> store_writes (fst (addOrUpdateMessage world_ok (Some u1) hello_state)) =
       [AddDoc ''messages''
          [(''role'', Val (JStr (js ''user''))),
           (''content'', Val (JStr (js ''Hello''))),
           (''userId'', Val (JStr (js ''u1''))),
           (''createdAt'', ServerTimestamp),
           (''updatedAt'', ServerTimestamp)],
        AddDoc ''messages''
          [(''role'', Val (JStr (js ''assistant''))),
           (''content'', Val (JStr (js ''Hi there''))),
           (''userId'', Val (JStr (js ''u1''))),
           (''createdAt'', ServerTimestamp),
           (''updatedAt'', ServerTimestamp)]]
   \<and> store_writes (fst (addOrUpdateMessage world_offline (Some u1) hello_state)) =
       [AddDoc ''messages''
          [(''role'', Val (JStr (js ''user''))),
           (''content'', Val (JStr (js ''Hello''))),
           (''userId'', Val (JStr (js ''u1''))),
           (''createdAt'', ServerTimestamp),
           (''updatedAt'', ServerTimestamp)]]"
proof -
  have h: "trim (prompt hello_state) \<noteq> []" by (simp add: hello_state_def)
  have ok: "store_result world_ok c = Resolved ()" for c by (simp add: world_ok_def)
  have ans: "fetch_result world_ok ''/api/chat'' (chat_request hello_state)
       = Resolved (Response (Resolved
           (JObj [(js ''choices'',
                   JArr [JObj [(js ''message'',
                                JObj [(js ''content'', JStr (js ''Hi there''))])]])])))"
    by (simp add: world_ok_def reply_hi_def)
  have e: "editId hello_state = None" and p: "prompt hello_state = js ''Hello''"
    and u: "uid u1 = js ''u1''"
    by (simp_all add: hello_state_def u1_def)
  have k1: "map_of [(js ''choices'',
                   JArr [JObj [(js ''message'',
                                JObj [(js ''content'', JStr (js ''Hi there''))])]])] (js ''choices'')
      = Some (JArr (JObj [(js ''message'', JObj [(js ''content'', JStr (js ''Hi there''))])] # []))"
    and k2: "map_of [(js ''message'', JObj [(js ''content'', JStr (js ''Hi there''))])] (js ''message'')
      = Some (JObj [(js ''content'', JStr (js ''Hi there''))])"
    and k3: "map_of [(js ''content'', JStr (js ''Hi there''))] (js ''content'')
      = Some (JStr (js ''Hi there''))"
    by simp_all
  note inst = submit_store_writes [OF h, of u1 world_ok, unfolded Let_def e p u option.case]
  from inst have "\<forall>r kvs ckvs others mkvs v.
        store_result world_ok (AddDoc ''messages''
          [(''role'', Val (JStr (js ''user''))),
           (''content'', Val (JStr (js ''Hello''))),
           (''userId'', Val (JStr (js ''u1''))),
           (''createdAt'', ServerTimestamp),
           (''updatedAt'', ServerTimestamp)]) = Resolved ()
      \<and> fetch_result world_ok ''/api/chat'' (chat_request hello_state) = Resolved r
      \<and> json r = Resolved (JObj kvs)
      \<and> map_of kvs (js ''choices'') = Some (JArr (JObj ckvs # others))
      \<and> map_of ckvs (js ''message'') = Some (JObj mkvs)
      \<and> map_of mkvs (js ''content'') = Some v
      \<longrightarrow> store_writes (fst (addOrUpdateMessage world_ok (Some u1) hello_state)) =
       [AddDoc ''messages''
          [(''role'', Val (JStr (js ''user''))),
           (''content'', Val (JStr (js ''Hello''))),
           (''userId'', Val (JStr (js ''u1''))),
           (''createdAt'', ServerTimestamp),
           (''updatedAt'', ServerTimestamp)],
        AddDoc ''messages''
          [(''role'', Val (JStr (js ''assistant''))),
           (''content'', Val v),
           (''userId'', Val (JStr (js ''u1''))),
           (''createdAt'', ServerTimestamp),
           (''updatedAt'', ServerTimestamp)]]"
    by blast
  with ok ans k1 k2 k3
  have a: "store_writes (fst (addOrUpdateMessage world_ok (Some u1) hello_state)) =
       [AddDoc ''messages''
          [(''role'', Val (JStr (js ''user''))),
           (''content'', Val (JStr (js ''Hello''))),
           (''userId'', Val (JStr (js ''u1''))),
           (''createdAt'', ServerTimestamp),
           (''updatedAt'', ServerTimestamp)],
        AddDoc ''messages''
          [(''role'', Val (JStr (js ''assistant''))),
           (''content'', Val (JStr (js ''Hi there''))),
           (''userId'', Val (JStr (js ''u1''))),
           (''createdAt'', ServerTimestamp),
           (''updatedAt'', ServerTimestamp)]]"
    by (metis response.sel)
  have off: "fetch_result world_offline ''/api/chat'' (chat_request hello_state)
      = Rejected (External ''network'')"
    by (simp add: world_offline_def)
  from submit_store_writes [OF h, of u1 world_offline, unfolded Let_def e p u option.case] off
  have b: "store_writes (fst (addOrUpdateMessage world_offline (Some u1) hello_state)) =
       [AddDoc ''messages''
          [(''role'', Val (JStr (js ''user''))),
           (''content'', Val (JStr (js ''Hello''))),
           (''userId'', Val (JStr (js ''u1''))),
           (''createdAt'', ServerTimestamp),
           (''updatedAt'', ServerTimestamp)]]"
    by blast
  from h ans a b show ?thesis by blast
qed

subsection \<open>The precondition\<close>

text \<open>
  C2. When the trimmed draft is empty or there is no user, the handler returns at once:
  no store write, no remote call, no state setter, so the component state is unchanged.
\<close>

theorem blank_or_anonymous_noop:
  assumes "trim (prompt s) = [] \<or> usr = None"
  shows "addOrUpdateMessage w usr s = ([], Returned)
       \<and> store_writes (fst (addOrUpdateMessage w usr s)) = []
       \<and> fetches (fst (addOrUpdateMessage w usr s)) = []
       \<and> state_after w usr s = s"
  using assms by (auto simp: addOrUpdateMessage_def state_after_def replay_def)

theorem blank_or_anonymous_noop_witness:
  "(trim (prompt blank_state) = [] \<or> Some u1 = None)
   \<and> addOrUpdateMessage world_ok (Some u1) blank_state = ([], Returned)
   \<and> (trim (prompt hello_state) = [] \<or> (None :: user option) = None)
   \<and> state_after world_ok None hello_state = hello_state"
proof -
  have a: "trim (prompt blank_state) = [] \<or> Some u1 = None" by (simp add: blank_state_def)
  have b: "trim (prompt hello_state) = [] \<or> (None :: user option) = None" by simp
  from blank_or_anonymous_noop [OF a, of world_ok] blank_or_anonymous_noop [OF b, of world_ok] a b
  show ?thesis by blast
qed

subsection \<open>The failure path\<close>

text \<open>
  C3, as the code has it. When the try block throws, the error is logged once, the
  handler returns and the draft is what it was. The edit marker is what it was unless
  the update of the edited message had already been accepted: then it is \<^verbatim>\<open>null\<close>.
\<close>

theorem failure_logged_draft_kept:
  assumes "trim (prompt s) \<noteq> []" and "snd (try_block w u s) = Threw x"
  shows "errors_logged (fst (addOrUpdateMessage w (Some u) s)) = [x]
       \<and> snd (addOrUpdateMessage w (Some u) s) = Returned
       \<and> prompt (state_after w (Some u) s) = prompt s
       \<and> editId (state_after w (Some u) s) = (if update_committed w s then None else editId s)"
  using assms
  by (simp add: handler_eq state_after_def errors_logged_append try_block_errors
      replay_Cons replay_append replay_Nil try_block_state)

theorem failure_logged_draft_kept_witness:
  "trim (prompt hello_state) \<noteq> []
   \<and> snd (try_block world_offline u1 hello_state) = Threw (External ''network'')
   \<and> errors_logged (fst (addOrUpdateMessage world_offline (Some u1) hello_state))
       = [External ''network'']
   \<and> prompt (state_after world_offline (Some u1) hello_state) = js ''Hello''
   \<and> editId (state_after world_offline (Some u1) hello_state) = None"
proof -
  have h: "trim (prompt hello_state) \<noteq> []" by (simp add: hello_state_def)
  have t: "snd (try_block world_offline u1 hello_state) = Threw (External ''network'')"
    by (simp add: try_block_eq request_reply_eq world_offline_def)
  from failure_logged_draft_kept [OF h t] h t show ?thesis
    by (simp add: hello_state_def update_committed_def)
qed

text \<open>
  With the endpoint unreachable in edit mode the update is accepted, the call is
  rejected, and the edit marker is lost.
\<close>

theorem failure_clears_edit_marker:
  "trim (prompt edit_state) \<noteq> []
   \<and> snd (try_block world_offline u1 edit_state) = Threw (External ''network'')
   \<and> editId edit_state = Some (js ''m1'')
   \<and> editId (state_after world_offline (Some u1) edit_state) = None"
proof -
  have h: "trim (prompt edit_state) \<noteq> []" by (simp add: edit_state_def)
  have t: "snd (try_block world_offline u1 edit_state) = Threw (External ''network'')"
    by (simp add: try_block_eq request_reply_eq world_offline_def)
  have c: "update_committed world_offline edit_state"
    by (simp add: update_committed_def edit_state_def world_offline_def)
  from h t c show ?thesis
    by (simp add: handler_eq state_after_def replay_Cons replay_append replay_Nil
        try_block_state) (simp add: edit_state_def)
qed

subsection \<open>The loading flag\<close>

lemma loading_prefix:
  assumes mid: "\<forall>e\<in>set mid. \<not> sets_loading e" and n: "0 < n" "n \<le> Suc (length mid)"
  shows "loading (replay (take n (SetLoading True # mid @ rest)) s)"
proof -
  from n obtain k where k: "n = Suc k" "k \<le> length mid" by (cases n) auto
  have "\<forall>e\<in>set (take k mid). \<not> sets_loading e"
    using mid by (meson in_set_takeD)
  then have "loading (replay (take k mid) (apply_event (SetLoading True) s))
     = loading (apply_event (SetLoading True) s)" by (rule loading_replay)
  with k show ?thesis by (simp add: replay_Cons)
qed

lemma handler_shape:
  assumes "trim (prompt s) \<noteq> []"
  shows "\<exists>mid. (\<forall>e\<in>set mid. \<not> sets_loading e) \<and>
     (addOrUpdateMessage w (Some u) s = (SetLoading True # mid @ [SetLoading False], Returned)
      \<or> addOrUpdateMessage w (Some u) s = (SetLoading True # mid, Suspended))"
proof (cases "snd (try_block w u s)")
  case (Value v)
  with assms try_block_no_loading [of w u s] show ?thesis
    by (auto simp: handler_eq)
next
  case (Threw x)
  let ?mid = "fst (try_block w u s) @ [ConsoleError ''Error submitting message:'' x]"
  from try_block_no_loading [of w u s] have "\<forall>e\<in>set ?mid. \<not> sets_loading e" by simp
  moreover from Threw assms
  have "addOrUpdateMessage w (Some u) s = (SetLoading True # ?mid @ [SetLoading False], Returned)"
    by (simp add: handler_eq)
  ultimately show ?thesis by blast
next
  case Stuck
  with assms try_block_no_loading [of w u s] show ?thesis
    by (auto simp: handler_eq)
qed

lemma try_block_settles:
  assumes "\<forall>x. store_result w x \<noteq> Pending"
    and "\<forall>url r. fetch_result w url r \<noteq> Pending"
    and "\<forall>url r resp. fetch_result w url r = Resolved resp \<longrightarrow> json resp \<noteq> Pending"
  shows "snd (try_block w u s) \<noteq> Stuck"
proof -
  have "snd (request_reply w u s) \<noteq> Stuck"
    using assms by (auto simp: request_reply_eq split: outcome.split sum.split)
  with assms(1) show ?thesis
    by (auto simp: try_block_eq split: outcome.split)
qed

lemma handler_returns:
  "trim (prompt s) \<noteq> [] \<Longrightarrow> snd (try_block w u s) \<noteq> Stuck \<Longrightarrow>
   snd (addOrUpdateMessage w (Some u) s) = Returned"
  by (simp add: handler_eq split: flow.split)

text \<open>
  C5. An invocation that passes the precondition first sets the loading flag. The flag is
  set after every proper, non-empty prefix of the invocation's events. The invocation
  returns whenever its try block ends, with success or with an error, which it does
  whenever no promise of the store or the endpoint stays pending; and when it returns
  the flag is reset. Only while the invocation is suspended at an await that never
  settles does the flag stay set.
\<close>

theorem loading_during_invocation:
  assumes "trim (prompt s) \<noteq> []"
  shows "case addOrUpdateMessage w (Some u) s of (tr, c) \<Rightarrow>
      (\<exists>rest. tr = SetLoading True # rest)
    \<and> (\<forall>n. 0 < n \<and> n < length tr \<longrightarrow> loading (replay (take n tr) s))
    \<and> (c = Returned \<longrightarrow> \<not> loading (replay tr s))
    \<and> (c = Suspended \<longrightarrow> loading (replay tr s))
    \<and> (snd (try_block w u s) \<noteq> Stuck \<longrightarrow> c = Returned \<and> \<not> loading (replay tr s))
    \<and> ((\<forall>x. store_result w x \<noteq> Pending)
        \<and> (\<forall>url r. fetch_result w url r \<noteq> Pending)
        \<and> (\<forall>url r resp. fetch_result w url r = Resolved resp \<longrightarrow> json resp \<noteq> Pending)
        \<longrightarrow> c = Returned \<and> \<not> loading (replay tr s))"
proof -
  obtain tr c where tc: "addOrUpdateMessage w (Some u) s = (tr, c)" by (cases "addOrUpdateMessage w (Some u) s")
  from handler_shape [OF assms, of w u] obtain mid
    where mid: "\<forall>e\<in>set mid. \<not> sets_loading e"
      and shape: "addOrUpdateMessage w (Some u) s = (SetLoading True # mid @ [SetLoading False], Returned)
        \<or> addOrUpdateMessage w (Some u) s = (SetLoading True # mid, Suspended)"
    by blast
  have basic: "(\<exists>rest. tr = SetLoading True # rest)
    \<and> (\<forall>n. 0 < n \<and> n < length tr \<longrightarrow> loading (replay (take n tr) s))
    \<and> (c = Returned \<longrightarrow> \<not> loading (replay tr s))
    \<and> (c = Suspended \<longrightarrow> loading (replay tr s))"
    using shape
  proof
    assume r: "addOrUpdateMessage w (Some u) s = (SetLoading True # mid @ [SetLoading False], Returned)"
    have "\<forall>n. 0 < n \<and> n < length (SetLoading True # mid @ [SetLoading False])
        \<longrightarrow> loading (replay (take n (SetLoading True # mid @ [SetLoading False])) s)"
      using loading_prefix [OF mid] by simp
    moreover have "\<not> loading (replay (SetLoading True # mid @ [SetLoading False]) s)"
      by (simp add: replay_Cons replay_append replay_Nil)
    ultimately show ?thesis using r tc by simp
  next
    assume r: "addOrUpdateMessage w (Some u) s = (SetLoading True # mid, Suspended)"
    have "\<forall>n. 0 < n \<and> n < length (SetLoading True # mid)
        \<longrightarrow> loading (replay (take n (SetLoading True # mid)) s)"
      using loading_prefix [OF mid, where rest = "[]"] by simp
    moreover have "loading (replay (SetLoading True # mid) s)"
      using loading_prefix [OF mid, of "Suc (length mid)" "[]" s] by simp
    ultimately show ?thesis using r tc by simp
  qed
  have ended: "snd (try_block w u s) \<noteq> Stuck \<longrightarrow> c = Returned \<and> \<not> loading (replay tr s)"
    using handler_returns [OF assms, of w u] basic tc by auto
  have settled: "(\<forall>x. store_result w x \<noteq> Pending)
        \<and> (\<forall>url r. fetch_result w url r \<noteq> Pending)
        \<and> (\<forall>url r resp. fetch_result w url r = Resolved resp \<longrightarrow> json resp \<noteq> Pending)
        \<longrightarrow> c = Returned \<and> \<not> loading (replay tr s)"
    using try_block_settles [of w u s] ended by blast
  from basic ended settled show ?thesis
    unfolding tc by simp
qed

lemma try_offline_hello:
  "try_block world_offline u1 hello_state =
     ([Write (user_add u1 hello_state), Fetch ''/api/chat'' (chat_request hello_state)],
      Threw (External ''network''))"
  by (simp add: try_block_eq request_reply_eq world_offline_def user_message_write_def
      update_committed_def hello_state_def)

lemma try_ok_hello:
  "try_block world_ok u1 hello_state =
     ([Write (user_add u1 hello_state), Fetch ''/api/chat'' (chat_request hello_state),
       Write (assistant_add u1 (JStr (js ''Hi there''))), SetPrompt []],
      Value ())"
  by (simp add: try_block_eq request_reply_eq world_ok_def user_message_write_def
      update_committed_def hello_state_def reply_hi_def choices0_message_content_def
      and_then_def js_def)

theorem loading_during_invocation_witness:
  "trim (prompt hello_state) \<noteq> []
   \<and> snd (addOrUpdateMessage world_offline (Some u1) hello_state) = Returned
   \<and> length (fst (addOrUpdateMessage world_offline (Some u1) hello_state)) = 5
   \<and> loading (replay (take 1 (fst (addOrUpdateMessage world_offline (Some u1) hello_state))) hello_state)
   \<and> loading (replay (take 4 (fst (addOrUpdateMessage world_offline (Some u1) hello_state))) hello_state)
   \<and> \<not> loading (replay (fst (addOrUpdateMessage world_offline (Some u1) hello_state)) hello_state)
   \<and> snd (addOrUpdateMessage world_ok (Some u1) hello_state) = Returned
   \<and> length (fst (addOrUpdateMessage world_ok (Some u1) hello_state)) = 6
   \<and> loading (replay (take 5 (fst (addOrUpdateMessage world_ok (Some u1) hello_state))) hello_state)
   \<and> \<not> loading (replay (fst (addOrUpdateMessage world_ok (Some u1) hello_state)) hello_state)"
proof -
  have h: "trim (prompt hello_state) \<noteq> []" by (simp add: hello_state_def)
  have e: "addOrUpdateMessage world_offline (Some u1) hello_state =
    ([SetLoading True, Write (user_add u1 hello_state),
      Fetch ''/api/chat'' (chat_request hello_state),
      ConsoleError ''Error submitting message:'' (External ''network''),
      SetLoading False], Returned)"
    using h by (simp add: handler_eq try_offline_hello)
  let ?tr = "fst (addOrUpdateMessage world_offline (Some u1) hello_state)"
  from loading_during_invocation [OF h, of world_offline u1]
  have during: "\<forall>n. 0 < n \<and> n < length ?tr \<longrightarrow> loading (replay (take n ?tr) hello_state)"
    and after: "\<not> loading (replay ?tr hello_state)"
    by (simp_all add: e)
  have len: "length ?tr = 5" by (simp add: e)
  from during len have off: "loading (replay (take 1 ?tr) hello_state)"
    "loading (replay (take 4 ?tr) hello_state)"
    by simp_all
  let ?ok = "addOrUpdateMessage world_ok (Some u1) hello_state"
  have s1: "\<forall>x. store_result world_ok x \<noteq> Pending"
    and s2: "\<forall>url r. fetch_result world_ok url r \<noteq> Pending"
    and s3: "\<forall>url r resp. fetch_result world_ok url r = Resolved resp \<longrightarrow> json resp \<noteq> Pending"
    by (auto simp: world_ok_def)
  have lenok: "length (fst ?ok) = 6"
    using h by (simp add: handler_eq try_ok_hello)
  from loading_during_invocation [OF h, of world_ok u1] s1 s2 s3
  have ret: "snd ?ok = Returned" and fin: "\<not> loading (replay (fst ?ok) hello_state)"
    and dur: "\<forall>n. 0 < n \<and> n < length (fst ?ok) \<longrightarrow> loading (replay (take n (fst ?ok)) hello_state)"
    by (auto simp: case_prod_unfold)
  from dur lenok have five: "loading (replay (take 5 (fst ?ok)) hello_state)" by simp
  from h e after len off ret fin lenok five show ?thesis by simp
qed

subsection \<open>The remote call\<close>

lemma slice_last5_length: "length (slice_last5 xs) = min 5 (length xs)"
  by (simp add: slice_last5_def)

lemma slice_last5_suffix: "take (length xs - 5) xs @ slice_last5 xs = xs"
  by (simp add: slice_last5_def)

lemma message_json_role: "dot (message_json m) (js ''role'') = Inr (JStr (role m))"
  by (simp add: message_json_def js_def split: option.split)

lemma message_json_content: "dot (message_json m) (js ''content'') = Inr (JStr (content m))"
  by (simp add: message_json_def js_def split: option.split)

lemma handler_fetches_any:
  "set (fetches (fst (addOrUpdateMessage w usr s))) \<subseteq> {(''/api/chat'', chat_request s)}"
proof (cases "trim (prompt s) = [] \<or> usr = None")
  case True
  then show ?thesis by (auto simp: addOrUpdateMessage_def)
next
  case False
  then obtain u where "usr = Some u" "trim (prompt s) \<noteq> []" by auto
  then show ?thesis by (auto simp: handler_fetches try_block_fetches)
qed

text \<open>
  C8, as the code has it. Every remote call of the handler is a POST to \<^verbatim>\<open>/api/chat\<close> with
  a JSON body of two properties: \<open>prompt\<close>, the draft, and \<open>messages\<close>, the last five
  entries (all when fewer) of the message list the handler was invoked with. An entry
  is the whole message in memory: \<open>id\<close> when it has one, \<open>role\<close>, \<open>content\<close>, \<open>createdAt\<close>
  and, unless absent, \<open>updatedAt\<close>. A message stored by the snapshot callback has all
  five.
\<close>

theorem remote_call_request:
  assumes "(url, r) \<in> set (fetches (fst (addOrUpdateMessage w usr s)))"
  shows "url = ''/api/chat''
       \<and> http_method r = ''POST''
       \<and> headers r = [(''Content-Type'', ''application/json'')]
       \<and> body r =
           JObj [(js ''prompt'', JStr (prompt s)),
                 (js ''messages'',
                  JArr (map (\<lambda>m. JObj
                          ((case id m of None \<Rightarrow> [] | Some i \<Rightarrow> [(js ''id'', JStr i)])
                           @ [(js ''role'', JStr (role m)),
                              (js ''content'', JStr (content m)),
                              (js ''createdAt'',
                               case createdAt m of None \<Rightarrow> JNull | Some t \<Rightarrow> JStr t)]
                           @ (case updatedAt m of
                                None \<Rightarrow> []
                              | Some None \<Rightarrow> [(js ''updatedAt'', JNull)]
                              | Some (Some t) \<Rightarrow> [(js ''updatedAt'', JStr t)])))
                        (slice_last5 (messages s))))]
       \<and> length (slice_last5 (messages s)) = min 5 (length (messages s))
       \<and> (\<exists>older. messages s = older @ slice_last5 (messages s))
       \<and> (\<forall>m\<in>set (slice_last5 (messages s)).
            dot (message_json m) (js ''role'') = Inr (JStr (role m))
          \<and> dot (message_json m) (js ''content'') = Inr (JStr (content m)))
       \<and> (\<forall>fmt d. message_json (to_message fmt d) =
            JObj [(js ''id'', JStr (doc_id d)),
                  (js ''role'', JStr (data_role d)),
                  (js ''content'', JStr (data_content d)),
                  (js ''createdAt'',
                   case data_createdAt d of None \<Rightarrow> JNull | Some t \<Rightarrow> JStr (fmt t)),
                  (js ''updatedAt'',
                   case data_updatedAt d of None \<Rightarrow> JNull | Some t \<Rightarrow> JStr (fmt t))])"
proof -
  from assms handler_fetches_any [of w usr s]
  have "url = ''/api/chat''" and "r = chat_request s" by auto
  moreover have "\<exists>older. messages s = older @ slice_last5 (messages s)"
    using slice_last5_suffix [of "messages s"] by metis
  moreover have "message_json = (\<lambda>m. JObj
                          ((case id m of None \<Rightarrow> [] | Some i \<Rightarrow> [(js ''id'', JStr i)])
                           @ [(js ''role'', JStr (role m)),
                              (js ''content'', JStr (content m)),
                              (js ''createdAt'',
                               case createdAt m of None \<Rightarrow> JNull | Some t \<Rightarrow> JStr t)]
                           @ (case updatedAt m of
                                None \<Rightarrow> []
                              | Some None \<Rightarrow> [(js ''updatedAt'', JNull)]
                              | Some (Some t) \<Rightarrow> [(js ''updatedAt'', JStr t)])))"
    by (rule ext) (simp add: message_json_def nullable_def split: option.split)
  moreover have "\<forall>fmt d. message_json (to_message fmt d) =
            JObj [(js ''id'', JStr (doc_id d)),
                  (js ''role'', JStr (data_role d)),
                  (js ''content'', JStr (data_content d)),
                  (js ''createdAt'',
                   case data_createdAt d of None \<Rightarrow> JNull | Some t \<Rightarrow> JStr (fmt t)),
                  (js ''updatedAt'',
                   case data_updatedAt d of None \<Rightarrow> JNull | Some t \<Rightarrow> JStr (fmt t))]"
    by (simp add: message_json_def to_message_def nullable_def split: option.split)
  ultimately show ?thesis
    by (simp add: chat_request_def slice_last5_length message_json_role message_json_content)
qed

theorem remote_call_request_witness:
  "(''/api/chat'', chat_request long_state)
     \<in> set (fetches (fst (addOrUpdateMessage world_ok (Some u1) long_state)))
   \<and> slice_last5 (messages long_state) = map brief [50, 51, 52, 53, 54]
   \<and> length (slice_last5 (messages long_state)) = 5
   \<and> dot (message_json (brief 50)) (js ''role'') = Inr (JStr (js ''user''))
   \<and> message_json (to_message example_locale (hd snapshot_two)) =
       JObj [(js ''id'', JStr (js ''m1'')),
             (js ''role'', JStr (js ''user'')),
             (js ''content'', JStr (js ''Hello'')),
             (js ''createdAt'', JStr (example_locale 1)),
             (js ''updatedAt'', JStr (example_locale 1))]"
proof -
  have h: "trim (prompt long_state) \<noteq> []" by (simp add: long_state_def)
  have f: "(''/api/chat'', chat_request long_state)
     \<in> set (fetches (fst (addOrUpdateMessage world_ok (Some u1) long_state)))"
    using h by (simp add: handler_fetches try_block_fetches world_ok_def)
  have sl: "slice_last5 (messages long_state) = map brief [50, 51, 52, 53, 54]"
    by (simp add: slice_last5_def long_state_def)
  from remote_call_request [OF f]
  have l: "length (slice_last5 (messages long_state)) = min 5 (length (messages long_state))"
    and r: "\<forall>m\<in>set (slice_last5 (messages long_state)).
              dot (message_json m) (js ''role'') = Inr (JStr (role m))
            \<and> dot (message_json m) (js ''content'') = Inr (JStr (content m))"
    and t: "\<forall>fmt d. message_json (to_message fmt d) =
            JObj [(js ''id'', JStr (doc_id d)),
                  (js ''role'', JStr (data_role d)),
                  (js ''content'', JStr (data_content d)),
                  (js ''createdAt'',
                   case data_createdAt d of None \<Rightarrow> JNull | Some t \<Rightarrow> JStr (fmt t)),
                  (js ''updatedAt'',
                   case data_updatedAt d of None \<Rightarrow> JNull | Some t \<Rightarrow> JStr (fmt t))]"
    by blast+
  from r have "dot (message_json (brief 50)) (js ''role'') = Inr (JStr (role (brief 50)))"
    by (simp add: sl)
  then have a: "dot (message_json (brief 50)) (js ''role'') = Inr (JStr (js ''user''))"
    by (simp add: brief_def)
  from l have b: "length (slice_last5 (messages long_state)) = 5"
    by (simp add: long_state_def)
  from t have "message_json (to_message example_locale (hd snapshot_two)) =
            JObj [(js ''id'', JStr (doc_id (hd snapshot_two))),
                  (js ''role'', JStr (data_role (hd snapshot_two))),
                  (js ''content'', JStr (data_content (hd snapshot_two))),
                  (js ''createdAt'',
                   case data_createdAt (hd snapshot_two) of
                     None \<Rightarrow> JNull | Some t \<Rightarrow> JStr (example_locale t)),
                  (js ''updatedAt'',
                   case data_updatedAt (hd snapshot_two) of
                     None \<Rightarrow> JNull | Some t \<Rightarrow> JStr (example_locale t))]"
    by blast
  then have c: "message_json (to_message example_locale (hd snapshot_two)) =
       JObj [(js ''id'', JStr (js ''m1'')),
             (js ''role'', JStr (js ''user'')),
             (js ''content'', JStr (js ''Hello'')),
             (js ''createdAt'', JStr (example_locale 1)),
             (js ''updatedAt'', JStr (example_locale 1))]"
    by (simp add: snapshot_two_def)
  from f sl a b c show ?thesis by blast
qed

text \<open>
  An entry of the request sent while editing: the message as the snapshot callback made
  it, not its \<open>role\<close> and \<open>content\<close> alone.
\<close>

theorem remote_call_entries_whole:
  "(''/api/chat'', chat_request edit_state)
     \<in> set (fetches (fst (addOrUpdateMessage world_ok (Some u1) edit_state)))
   \<and> body (chat_request edit_state) =
       JObj [(js ''prompt'', JStr (js ''Hello again'')),
             (js ''messages'',
              JArr [JObj [(js ''id'', JStr (js ''m1'')),
                          (js ''role'', JStr (js ''user'')),
                          (js ''content'', JStr (js ''Hello'')),
                          (js ''createdAt'', JStr (js ''t+1'')),
                          (js ''updatedAt'', JStr (js ''t+1''))]])]
   \<and> body (chat_request edit_state) \<noteq>
       JObj [(js ''prompt'', JStr (js ''Hello again'')),
             (js ''messages'',
              JArr [JObj [(js ''role'', JStr (js ''user'')),
                          (js ''content'', JStr (js ''Hello''))]])]"
proof -
  have h: "trim (prompt edit_state) \<noteq> []" by (simp add: edit_state_def)
  have "(''/api/chat'', chat_request edit_state)
     \<in> set (fetches (fst (addOrUpdateMessage world_ok (Some u1) edit_state)))"
    using h by (simp add: handler_fetches try_block_fetches world_ok_def)
  moreover have "body (chat_request edit_state) =
       JObj [(js ''prompt'', JStr (js ''Hello again'')),
             (js ''messages'',
              JArr [JObj [(js ''id'', JStr (js ''m1'')),
                          (js ''role'', JStr (js ''user'')),
                          (js ''content'', JStr (js ''Hello'')),
                          (js ''createdAt'', JStr (js ''t+1'')),
                          (js ''updatedAt'', JStr (js ''t+1''))]])]"
    by (simp add: chat_request_def edit_state_def slice_last5_def message_json_def nullable_def)
  ultimately show ?thesis by simp
qed

subsection \<open>The draft is stored as typed\<close>

text \<open>
  C9. Outside edit mode, a submission that passes the precondition stores the draft
  itself, not the trimmed draft, as the content of the new \<open>user\<close> document, and when
  that write resolves the one request sent carries the same untrimmed draft as \<open>prompt\<close>.
\<close>

theorem raw_draft_persisted:
  assumes "trim (prompt s) \<noteq> []" and "\<not> editing s"
  shows "let created = AddDoc ''messages''
               [(''role'', Val (JStr (js ''user''))),
                (''content'', Val (JStr (prompt s))),
                (''userId'', Val (JStr (uid u))),
                (''createdAt'', ServerTimestamp),
                (''updatedAt'', ServerTimestamp)]
         in (\<exists>rest. store_writes (fst (addOrUpdateMessage w (Some u) s)) = created # rest)
          \<and> (store_result w created = Resolved () \<longrightarrow>
               (\<exists>r. fetches (fst (addOrUpdateMessage w (Some u) s)) = [(''/api/chat'', r)]
                  \<and> dot (body r) (js ''prompt'') = Inr (JStr (prompt s))))"
proof -
  from assms(2) have "user_message_write u s = user_add u s"
    by (simp add: editing_def user_message_write_def split: option.splits)
  with assms(1) show ?thesis
    by (simp add: handler_writes handler_fetches try_block_writes try_block_fetches Let_def
        user_add_def chat_request_def js_def)
qed

theorem raw_draft_persisted_witness:
  "trim (prompt padded_state) \<noteq> [] \<and> \<not> editing padded_state
   \<and> trim (prompt padded_state) \<noteq> prompt padded_state
   \<and> store_writes (fst (addOrUpdateMessage world_offline (Some u1) padded_state)) =
       [AddDoc ''messages''
          [(''role'', Val (JStr (js ''user''))),
           (''content'', Val (JStr (js '' hi ''))),
           (''userId'', Val (JStr (js ''u1''))),
           (''createdAt'', ServerTimestamp),
           (''updatedAt'', ServerTimestamp)]]"
proof -
  have h: "trim (prompt padded_state) \<noteq> []" by (simp add: padded_state_def)
  have e: "\<not> editing padded_state" by (simp add: editing_def padded_state_def)
  have n: "trim (prompt padded_state) \<noteq> prompt padded_state"
    by (simp add: padded_state_def) (simp add: js_def)
  from raw_draft_persisted [OF h e, of u1 world_offline]
  have "\<exists>rest. store_writes (fst (addOrUpdateMessage world_offline (Some u1) padded_state))
      = AddDoc ''messages''
          [(''role'', Val (JStr (js ''user''))),
           (''content'', Val (JStr (prompt padded_state))),
           (''userId'', Val (JStr (uid u1))),
           (''createdAt'', ServerTimestamp),
           (''updatedAt'', ServerTimestamp)] # rest"
    by (simp add: Let_def)
  then obtain rest where rest: "store_writes (fst (addOrUpdateMessage world_offline (Some u1) padded_state))
      = AddDoc ''messages''
          [(''role'', Val (JStr (js ''user''))),
           (''content'', Val (JStr (prompt padded_state))),
           (''userId'', Val (JStr (uid u1))),
           (''createdAt'', ServerTimestamp),
           (''updatedAt'', ServerTimestamp)] # rest" ..
  have "length (store_writes (fst (addOrUpdateMessage world_offline (Some u1) padded_state))) = 1"
    using h by (simp add: handler_writes try_block_writes)
  with rest have "rest = []" by simp
  with rest h e n show ?thesis by (simp add: padded_state_def u1_def)
qed

subsection \<open>Editing a message that has no id\<close>

lemma handler_creates_without_marker:
  assumes "editId s = None"
  shows "list_all creates (store_writes (fst (addOrUpdateMessage w usr s)))"
proof (cases "trim (prompt s) = [] \<or> usr = None")
  case True
  then show ?thesis by (auto simp: addOrUpdateMessage_def)
next
  case False
  then obtain u where u: "usr = Some u" and t: "trim (prompt s) \<noteq> []" by auto
  from assms have "user_message_write u s = user_add u s"
    by (simp add: user_message_write_def)
  then show ?thesis
    by (simp add: u handler_writes [OF t] try_block_writes user_add_def assistant_add_def
        split: option.split)
qed

text \<open>
  C10. For a message without id, \<^verbatim>\<open>editMessage\<close> copies the content into the draft and sets
  the edit marker to \<^verbatim>\<open>null\<close>. None of the writes of the submission that follows is an
  update, and when that submission passes the precondition (the content is not blank, a
  user is present) its first write is a new \<open>user\<close> document with that content.
\<close>

theorem edit_without_id_creates:
  assumes "id m = None"
  shows "prompt (editMessage m s) = content m
       \<and> editId (editMessage m s) = None
       \<and> (\<forall>x\<in>set (store_writes (fst (addOrUpdateMessage w usr (editMessage m s)))). creates x)
       \<and> (trim (content m) \<noteq> [] \<longrightarrow>
            (\<exists>rest. store_writes (fst (addOrUpdateMessage w (Some u) (editMessage m s))) =
               AddDoc ''messages''
                 [(''role'', Val (JStr (js ''user''))),
                  (''content'', Val (JStr (content m))),
                  (''userId'', Val (JStr (uid u))),
                  (''createdAt'', ServerTimestamp),
                  (''updatedAt'', ServerTimestamp)] # rest))"
proof -
  let ?s = "editMessage m s"
  from assms have p: "prompt ?s = content m" and e: "editId ?s = None"
    by (simp_all add: editMessage_def)
  from e have um: "user_message_write u ?s = user_add u ?s"
    by (simp add: user_message_write_def)
  have ua: "user_add u ?s = AddDoc ''messages''
              [(''role'', Val (JStr (js ''user''))),
               (''content'', Val (JStr (content m))),
               (''userId'', Val (JStr (uid u))),
               (''createdAt'', ServerTimestamp),
               (''updatedAt'', ServerTimestamp)]"
    by (simp add: user_add_def p)
  have first: "trim (content m) \<noteq> [] \<longrightarrow>
            (\<exists>rest. store_writes (fst (addOrUpdateMessage w (Some u) ?s)) =
               AddDoc ''messages''
                 [(''role'', Val (JStr (js ''user''))),
                  (''content'', Val (JStr (content m))),
                  (''userId'', Val (JStr (uid u))),
                  (''createdAt'', ServerTimestamp),
                  (''updatedAt'', ServerTimestamp)] # rest)"
  proof
    assume "trim (content m) \<noteq> []"
    with p have t: "trim (prompt ?s) \<noteq> []" by simp
    show "\<exists>rest. store_writes (fst (addOrUpdateMessage w (Some u) ?s)) =
               AddDoc ''messages''
                 [(''role'', Val (JStr (js ''user''))),
                  (''content'', Val (JStr (content m))),
                  (''userId'', Val (JStr (uid u))),
                  (''createdAt'', ServerTimestamp),
                  (''updatedAt'', ServerTimestamp)] # rest"
      by (simp add: handler_writes [OF t] try_block_writes um ua)
  qed
  have "\<forall>x\<in>set (store_writes (fst (addOrUpdateMessage w usr ?s))). creates x"
    using handler_creates_without_marker [OF e, of w usr] by (simp only: list_all_iff)
  with p e first show ?thesis by blast
qed

theorem edit_without_id_creates_witness:
  "id unsaved_message = None
   \<and> editId edit_state = Some (js ''m1'')
   \<and> editId (editMessage unsaved_message edit_state) = None
   \<and> prompt (editMessage unsaved_message edit_state) = js ''Hello''
   \<and> store_writes (fst (addOrUpdateMessage world_offline (Some u1)
            (editMessage unsaved_message edit_state))) =
       [AddDoc ''messages''
         [(''role'', Val (JStr (js ''user''))),
          (''content'', Val (JStr (js ''Hello''))),
          (''userId'', Val (JStr (js ''u1''))),
          (''createdAt'', ServerTimestamp),
          (''updatedAt'', ServerTimestamp)]]"
proof -
  let ?s = "editMessage unsaved_message edit_state"
  have a: "id unsaved_message = None" by (simp add: unsaved_message_def)
  have b: "trim (content unsaved_message) \<noteq> []" by (simp add: unsaved_message_def)
  have c: "content unsaved_message = js ''Hello''" by (simp add: unsaved_message_def)
  from edit_without_id_creates [OF a, of edit_state world_offline "Some u1" u1] b
  have p: "prompt ?s = content unsaved_message" and e: "editId ?s = None"
    and "\<exists>rest. store_writes (fst (addOrUpdateMessage world_offline (Some u1) ?s)) =
               AddDoc ''messages''
                 [(''role'', Val (JStr (js ''user''))),
                  (''content'', Val (JStr (content unsaved_message))),
                  (''userId'', Val (JStr (uid u1))),
                  (''createdAt'', ServerTimestamp),
                  (''updatedAt'', ServerTimestamp)] # rest"
    by blast+
  then obtain rest where rest: "store_writes (fst (addOrUpdateMessage world_offline (Some u1) ?s)) =
               AddDoc ''messages''
                 [(''role'', Val (JStr (js ''user''))),
                  (''content'', Val (JStr (content unsaved_message))),
                  (''userId'', Val (JStr (uid u1))),
                  (''createdAt'', ServerTimestamp),
                  (''updatedAt'', ServerTimestamp)] # rest" by blast
  from b p have t: "trim (prompt ?s) \<noteq> []" by simp
  have "length (store_writes (fst (addOrUpdateMessage world_offline (Some u1) ?s))) = 1"
    by (simp add: handler_writes [OF t] try_block_writes)
  with rest have "rest = []" by simp
  with rest a p e c show ?thesis by (simp add: u1_def edit_state_def)
qed

subsection \<open>The store\<close>

lemma map_of_set_field:
  "map_of (set_field k v d) k' = (if k' = k then Some v else map_of d k')"
  by (induction d) auto

lemma map_of_set_fields:
  "k \<notin> fst ` set new \<Longrightarrow> map_of (set_fields t new d) k = map_of d k"
  by (induction new arbitrary: d) (auto simp: map_of_set_field)

lemma edited_id: "stored_id (edited e p t d) = stored_id d"
  by (simp add: edited_def update_fields_def)

lemma edited_other_fields:
  "k \<noteq> ''content'' \<Longrightarrow> k \<noteq> ''updatedAt'' \<Longrightarrow> field (edited e p t d) k = field d k"
  by (simp add: edited_def update_fields_def field_def map_of_set_field)

lemma edited_fields:
  "stored_id d = e \<Longrightarrow>
   field (edited e p t d) ''content'' = Some (Val (JStr p))
   \<and> field (edited e p t d) ''updatedAt'' = Some (Timestamp t)"
  by (simp add: edited_def update_fields_def field_def map_of_set_field)

lemma edited_created_key: "created_key (edited e p t d) = created_key d"
  by (simp add: created_key_def created_time_def edited_other_fields)

lemma edited_query_key: "query_key (edited e p t d) = query_key d"
  by (simp add: query_key_def edited_created_key edited_id)

lemma edited_in_query: "in_query u (edited e p t d) = in_query u d"
  by (simp add: in_query_def created_time_def edited_other_fields)

lemma insort_key_map:
  assumes "\<And>x. f (g x) = f x"
  shows "insort_key f (g x) (map g ys) = map g (insort_key f x ys)"
  by (induction ys) (simp_all add: assms)

lemma sort_key_map:
  assumes "\<And>x. f (g x) = f x"
  shows "sort_key f (map g xs) = map g (sort_key f xs)"
  by (induction xs) (simp_all add: insort_key_map [of f g, OF assms])

lemma insort_key_snoc:
  "f x \<le> f a \<Longrightarrow> insort_key f x (ys @ [a]) = insort_key f x ys @ [a]"
  by (induction ys) simp_all

lemma sort_key_snoc:
  "\<forall>x\<in>set xs. f x \<le> f a \<Longrightarrow> sort_key f (xs @ [a]) = sort_key f xs @ [a]"
  by (induction xs) (simp_all add: insort_key_snoc)

lemma history_edited: "history u (map (edited e p t) st) = map (edited e p t) (history u st)"
proof -
  have "filter (in_query u) (map (edited e p t) st) = map (edited e p t) (filter (in_query u) st)"
    by (simp add: filter_map o_def edited_in_query)
  then show ?thesis
    by (simp add: history_def sort_key_map [of query_key "edited e p t", OF edited_query_key])
qed

lemma reply_doc_key: "created_key (reply_doc n u c t) = t"
  by (simp add: reply_doc_def created_key_def created_time_def field_def)

lemma reply_doc_in_query: "in_query (uid u) (reply_doc n u c t)"
  by (simp add: reply_doc_def in_query_def created_time_def field_def)

lemma history_reply:
  assumes "\<forall>d\<in>set st. in_query (uid u) d \<longrightarrow> created_key d < t"
  shows "history (uid u) (st @ [reply_doc n u c t]) = history (uid u) st @ [reply_doc n u c t]"
proof -
  from assms have "\<forall>d\<in>set (filter (in_query (uid u)) st).
      query_key d \<le> query_key (reply_doc n u c t)"
    by (auto simp: reply_doc_key query_key_def)
  then show ?thesis
    by (simp add: history_def reply_doc_in_query sort_key_snoc)
qed

lemma commit_update:
  "commit t n (update_write e s) st = map (edited e (prompt s) t) st"
  by (simp add: update_write_def edited_def)

lemma commit_reply: "commit t n (assistant_add u c) st = st @ [reply_doc n u c t]"
  by (simp add: assistant_add_def reply_doc_def)

subsection \<open>An edit-mode submission in the store\<close>

lemma edit_first_write:
  "editId s = Some e \<Longrightarrow> e \<noteq> [] \<Longrightarrow> user_message_write u s = update_write e s"
  by (simp add: user_message_write_def)

lemma edit_committed:
  "editId s = Some e \<Longrightarrow> e \<noteq> [] \<Longrightarrow>
   update_committed w s \<longleftrightarrow> store_result w (update_write e s) = Resolved ()"
  by (simp add: update_committed_def)

lemma edit_store_after:
  assumes "trim (prompt s) \<noteq> []" and "editId s = Some e" and "e \<noteq> []"
  shows "commit_writes w [(t1, n1), (t2, n2)] (store_writes (fst (addOrUpdateMessage w (Some u) s))) st =
     (if update_committed w s then
        map (edited e (prompt s) t1) st
          @ (case remote_reply w s of
               None \<Rightarrow> []
             | Some c \<Rightarrow>
                 if store_result w (assistant_add u c) = Resolved ()
                 then [reply_doc n2 u c t2] else [])
      else st)"
  using assms
  by (simp add: handler_writes try_block_writes edit_first_write edit_committed
      commit_update commit_reply split: option.split)

text \<open>
  C7, as the code has it. In edit mode the handler's writes, committed at times \<open>t1\<close> and
  \<open>t2\<close>, leave every document that is not the edited one as it was, and change of the
  edited one only \<open>content\<close> (to the draft) and \<open>updatedAt\<close> (to the commit time): its id,
  role, creation time and owner stay. When the update, the remote call and the write of
  the reply all succeed, exactly one document is added, the assistant's reply; otherwise
  none is. The reply is created with the commit time of its write, so, that time being
  later than every earlier creation time, it is the last entry of the user's history,
  whose earlier entries keep their places: it follows the edited message directly only
  when that was the last entry.
\<close>

theorem edit_submission_store:
  assumes "trim (prompt s) \<noteq> []" and "editId s = Some e" and "e \<noteq> []"
  shows "let after = commit_writes w [(t1, n1), (t2, n2)]
                       (store_writes (fst (addOrUpdateMessage w (Some u) s))) st;
             replied = (\<lambda>c. update_committed w s \<and> remote_reply w s = Some c
                            \<and> store_result w (assistant_add u c) = Resolved ())
         in take (length st) after =
              (if update_committed w s then map (edited e (prompt s) t1) st else st)
          \<and> (\<forall>d. stored_id (edited e (prompt s) t1 d) = stored_id d
                 \<and> field (edited e (prompt s) t1 d) ''role'' = field d ''role''
                 \<and> field (edited e (prompt s) t1 d) ''createdAt'' = field d ''createdAt''
                 \<and> field (edited e (prompt s) t1 d) ''userId'' = field d ''userId''
                 \<and> (stored_id d \<noteq> e \<longrightarrow> edited e (prompt s) t1 d = d)
                 \<and> (stored_id d = e \<longrightarrow>
                       field (edited e (prompt s) t1 d) ''content'' = Some (Val (JStr (prompt s)))
                     \<and> field (edited e (prompt s) t1 d) ''updatedAt'' = Some (Timestamp t1)))
          \<and> (\<forall>c. replied c \<longrightarrow>
                 after = map (edited e (prompt s) t1) st @ [reply_doc n2 u c t2])
          \<and> ((\<forall>c. \<not> replied c) \<longrightarrow> length after = length st)
          \<and> (\<forall>c. replied c \<and> (\<forall>d\<in>set st. in_query (uid u) d \<longrightarrow> created_key d < t2) \<longrightarrow>
                 history (uid u) after =
                   map (edited e (prompt s) t1) (history (uid u) st) @ [reply_doc n2 u c t2])"
proof -
  let ?after = "commit_writes w [(t1, n1), (t2, n2)]
                  (store_writes (fst (addOrUpdateMessage w (Some u) s))) st"
  let ?up = "edited e (prompt s) t1"
  let ?replied = "\<lambda>c. update_committed w s \<and> remote_reply w s = Some c
                            \<and> store_result w (assistant_add u c) = Resolved ()"
  note after = edit_store_after [OF assms, of w t1 n1 t2 n2 u st]
  have existing: "take (length st) ?after = (if update_committed w s then map ?up st else st)"
    by (simp add: after)
  have frame: "\<forall>d. stored_id (?up d) = stored_id d
                 \<and> field (?up d) ''role'' = field d ''role''
                 \<and> field (?up d) ''createdAt'' = field d ''createdAt''
                 \<and> field (?up d) ''userId'' = field d ''userId''
                 \<and> (stored_id d \<noteq> e \<longrightarrow> ?up d = d)
                 \<and> (stored_id d = e \<longrightarrow>
                       field (?up d) ''content'' = Some (Val (JStr (prompt s)))
                     \<and> field (?up d) ''updatedAt'' = Some (Timestamp t1))"
    by (simp add: edited_id edited_other_fields edited_fields) (simp add: edited_def)
  have appended: "\<forall>c. ?replied c \<longrightarrow> ?after = map ?up st @ [reply_doc n2 u c t2]"
    by (simp add: after)
  have unreplied: "(\<forall>c. \<not> ?replied c) \<longrightarrow> length ?after = length st"
    by (cases "remote_reply w s") (auto simp: after)
  have tail: "\<forall>c. ?replied c \<and> (\<forall>d\<in>set st. in_query (uid u) d \<longrightarrow> created_key d < t2) \<longrightarrow>
                 history (uid u) ?after = map ?up (history (uid u) st) @ [reply_doc n2 u c t2]"
  proof (intro allI impI, elim conjE)
    fix c
    assume r: "update_committed w s" "remote_reply w s = Some c"
      "store_result w (assistant_add u c) = Resolved ()"
      and late: "\<forall>d\<in>set st. in_query (uid u) d \<longrightarrow> created_key d < t2"
    from late have "\<forall>d\<in>set (map ?up st). in_query (uid u) d \<longrightarrow> created_key d < t2"
      by (simp add: edited_in_query edited_created_key)
    from history_reply [OF this, of n2 c]
    have "history (uid u) (map ?up st @ [reply_doc n2 u c t2])
        = map ?up (history (uid u) st) @ [reply_doc n2 u c t2]"
      by (simp add: history_edited)
    with r show "history (uid u) ?after = map ?up (history (uid u) st) @ [reply_doc n2 u c t2]"
      by (simp add: after)
  qed
  show ?thesis
    unfolding Let_def by (intro conjI existing frame appended unreplied tail)
qed

lemma uid_u1: "uid u1 = js ''u1''"
  by (simp add: u1_def)

lemma edit_state_facts:
  "trim (prompt edit_state) \<noteq> []" "editId edit_state = Some (js ''m1'')" "js ''m1'' \<noteq> []"
  "prompt edit_state = js ''Hello again''"
  by (simp_all add: edit_state_def)

lemma committed_examples:
  "update_committed world_ok edit_state" "update_committed world_offline edit_state"
  "store_result world_ok x = Resolved ()"
  by (simp_all add: update_committed_def edit_state_def world_ok_def world_offline_def)

lemma history_store_two: "history (js ''u1'') store_two = store_two"
  by (simp add: history_def store_two_def in_query_def created_time_def created_key_def
      query_key_def field_def)

lemma history_store_m1: "history (js ''u1'') store_m1 = store_m1"
  by (simp add: history_def store_m1_def in_query_def created_time_def created_key_def
      query_key_def field_def)

lemma store_two_early: "\<forall>d\<in>set store_two. in_query (uid u1) d \<longrightarrow> created_key d < 6"
  by (simp add: store_two_def created_time_def created_key_def field_def)

lemma store_m1_early: "\<forall>d\<in>set store_m1. in_query (uid u1) d \<longrightarrow> created_key d < 6"
  by (simp add: store_m1_def created_time_def created_key_def field_def)

theorem edit_submission_store_witness:
  "trim (prompt edit_state) \<noteq> [] \<and> editId edit_state = Some (js ''m1'') \<and> js ''m1'' \<noteq> []
   \<and> map stored_id
        (history (js ''u1'')
           (commit_writes world_ok [(5, js ''x''), (6, js ''m2'')]
              (store_writes (fst (addOrUpdateMessage world_ok (Some u1) edit_state)))
              store_two))
       = [js ''m1'', js ''a1'', js ''m2'']
   \<and> field (edited (js ''m1'') (js ''Hello again'') 5 (hd store_two)) ''role''
       = Some (Val (JStr (js ''user'')))
   \<and> field (edited (js ''m1'') (js ''Hello again'') 5 (hd store_two)) ''content''
       = Some (Val (JStr (js ''Hello again'')))"
proof -
  let ?after = "commit_writes world_ok [(5, js ''x''), (6, js ''m2'')]
              (store_writes (fst (addOrUpdateMessage world_ok (Some u1) edit_state))) store_two"
  let ?c = "JStr (js ''Hi there'')"
  note inst = edit_submission_store [OF edit_state_facts(1-3),
      of world_ok 5 "js ''x''" 6 "js ''m2''" u1 store_two, unfolded Let_def]
  have replied: "update_committed world_ok edit_state \<and> remote_reply world_ok edit_state = Some ?c
      \<and> store_result world_ok (assistant_add u1 ?c) = Resolved ()"
    by (simp add: committed_examples)
  from inst have "\<forall>c. (update_committed world_ok edit_state \<and> remote_reply world_ok edit_state = Some c
      \<and> store_result world_ok (assistant_add u1 c) = Resolved ())
      \<and> (\<forall>d\<in>set store_two. in_query (uid u1) d \<longrightarrow> created_key d < 6) \<longrightarrow>
         history (uid u1) ?after =
           map (edited (js ''m1'') (prompt edit_state) 5) (history (uid u1) store_two)
             @ [reply_doc (js ''m2'') u1 c 6]"
    by blast
  with replied store_two_early
  have "history (uid u1) ?after =
           map (edited (js ''m1'') (prompt edit_state) 5) (history (uid u1) store_two)
             @ [reply_doc (js ''m2'') u1 ?c 6]"
    by blast
  then have h: "map stored_id (history (js ''u1'') ?after) = [js ''m1'', js ''a1'', js ''m2'']"
    by (simp add: uid_u1 history_store_two edited_id o_def reply_doc_def) (simp add: store_two_def)
  from inst have f: "\<forall>d. field (edited (js ''m1'') (prompt edit_state) 5 d) ''role'' = field d ''role''
      \<and> (stored_id d = js ''m1'' \<longrightarrow>
            field (edited (js ''m1'') (prompt edit_state) 5 d) ''content''
              = Some (Val (JStr (prompt edit_state))))"
    by blast
  have m: "stored_id (hd store_two) = js ''m1''"
    and r: "field (hd store_two) ''role'' = Some (Val (JStr (js ''user'')))"
    by (simp_all add: store_two_def field_def)
  from f m r have "field (edited (js ''m1'') (js ''Hello again'') 5 (hd store_two)) ''role''
       = Some (Val (JStr (js ''user'')))"
    and "field (edited (js ''m1'') (js ''Hello again'') 5 (hd store_two)) ''content''
       = Some (Val (JStr (js ''Hello again'')))"
    by (simp_all add: edit_state_facts(4))
  with h edit_state_facts show ?thesis by blast
qed

text \<open>
  With the endpoint unreachable the only write is the update and no document is added;
  and when the edited message is the last of the history, the reply comes right after it.
\<close>

theorem edit_reply_missing_or_adjacent:
  "store_writes (fst (addOrUpdateMessage world_offline (Some u1) edit_state))
     = [UpdateDoc ''messages'' (js ''m1'')
          [(''content'', Val (JStr (js ''Hello again''))), (''updatedAt'', ServerTimestamp)]]
   \<and> map stored_id
        (commit_writes world_offline [(5, js ''x''), (6, js ''m2'')]
           (store_writes (fst (addOrUpdateMessage world_offline (Some u1) edit_state)))
           store_m1)
       = [js ''m1'']
   \<and> map stored_id (history (js ''u1'') store_m1) = [js ''m1'']
   \<and> map stored_id
        (history (js ''u1'')
           (commit_writes world_ok [(5, js ''x''), (6, js ''m2'')]
              (store_writes (fst (addOrUpdateMessage world_ok (Some u1) edit_state)))
              store_m1))
       = [js ''m1'', js ''m2'']"
proof -
  note pre = edit_state_facts(1-3)
  have "store_writes (fst (addOrUpdateMessage world_offline (Some u1) edit_state))
     = [update_write (js ''m1'') edit_state]"
    by (simp add: handler_writes [OF pre(1)] try_block_writes edit_first_write [OF pre(2,3)])
  then have a: "store_writes (fst (addOrUpdateMessage world_offline (Some u1) edit_state))
     = [UpdateDoc ''messages'' (js ''m1'')
          [(''content'', Val (JStr (js ''Hello again''))), (''updatedAt'', ServerTimestamp)]]"
    by (simp add: update_write_def edit_state_facts(4))
  have b: "map stored_id
        (commit_writes world_offline [(5, js ''x''), (6, js ''m2'')]
           (store_writes (fst (addOrUpdateMessage world_offline (Some u1) edit_state)))
           store_m1) = [js ''m1'']"
    by (simp add: edit_store_after [OF pre] committed_examples edited_id o_def)
       (simp add: store_m1_def)
  have c: "map stored_id (history (js ''u1'') store_m1) = [js ''m1'']"
    by (simp add: history_store_m1) (simp add: store_m1_def)
  have "commit_writes world_ok [(5, js ''x''), (6, js ''m2'')]
              (store_writes (fst (addOrUpdateMessage world_ok (Some u1) edit_state))) store_m1
      = map (edited (js ''m1'') (prompt edit_state) 5) store_m1
          @ [reply_doc (js ''m2'') u1 (JStr (js ''Hi there'')) 6]"
    by (simp add: edit_store_after [OF pre] committed_examples)
  moreover have "\<forall>d\<in>set (map (edited (js ''m1'') (prompt edit_state) 5) store_m1).
      in_query (uid u1) d \<longrightarrow> created_key d < 6"
    using store_m1_early by (simp add: edited_in_query edited_created_key)
  ultimately have "history (uid u1)
       (commit_writes world_ok [(5, js ''x''), (6, js ''m2'')]
              (store_writes (fst (addOrUpdateMessage world_ok (Some u1) edit_state))) store_m1)
      = map (edited (js ''m1'') (prompt edit_state) 5) (history (uid u1) store_m1)
          @ [reply_doc (js ''m2'') u1 (JStr (js ''Hi there'')) 6]"
    by (simp add: history_reply history_edited)
  then have d: "map stored_id
        (history (js ''u1'')
           (commit_writes world_ok [(5, js ''x''), (6, js ''m2'')]
              (store_writes (fst (addOrUpdateMessage world_ok (Some u1) edit_state)))
              store_m1)) = [js ''m1'', js ''m2'']"
    by (simp add: uid_u1 history_store_m1 edited_id o_def reply_doc_def) (simp add: store_m1_def)
  from a b c d show ?thesis by blast
qed

subsection \<open>The displayed list is sorted by creation time\<close>










subsection \<open>The subscription is never closed\<close>

text \<open>
  The function \<^verbatim>\<open>fetchMessages\<close> returns would close the listener it opened.
\<close>

lemma unsubscribe_closes:
  "fetchMessages (Some u) ls = (ls', Some i) \<Longrightarrow> \<not> snd (run_cleanup (Some i) ls' ! i)"
  by (auto simp: fetchMessages_def run_cleanup_def nth_append)

text \<open>
  C4 asks that the subscription opened for a user is closed when the view is unmounted
  or the user changes. The effect callback hands React no cleanup function, so it is
  not: after a mount for user u1 and a change to user u2 both listeners are open, a
  snapshot for u1's listener still replaces the message list, and after an unmount the
  listener is still open.
\<close>

theorem listener_outlives_user_and_view:
  "listeners (change_user (Some u2) (mount (Some u1))) = [(js ''u1'', True), (js ''u2'', True)]
   \<and> cleanup (mount (Some u1)) = None
   \<and> callback_runs 0 (change_user (Some u2) (mount (Some u1)))
   \<and> map id (messages (comp (deliver example_locale 0 late_first
                                 (change_user (Some u2) (mount (Some u1))))))
       = [Some (js ''b''), Some (js ''a'')]
   \<and> callback_runs 0 (unmount (mount (Some u1)))"
  by (simp add: mount_def change_user_def unmount_def deliver_def callback_runs_def
      effect_callback_def fetchMessages_def run_cleanup_def u1_def u2_def js_def
      snapshot_callback_def to_message_def late_first_def)

end
